theory Spec2Isabelle
  imports Main
begin

section \<open>Memory model\<close>

text \<open>
  The container of \<^verbatim>\<open>vector.h\<close> is modelled over an explicit heap. A storage block
  is a record with the three header fields of \<^verbatim>\<open>struct storage\<close> and the slots of
  its flexible array member. \<^verbatim>\<open>make_storage\<close> returns raw memory, so every header
  field and every slot starts out uninitialised (\<open>None\<close>); reading an uninitialised
  field or slot, and touching a block that was released, is undefined behaviour.

  \<^verbatim>\<open>size_t\<close> is 64 bits wide: the arithmetic that can leave the range is reduced
  modulo \<open>2 ^ 64\<close>. \<^verbatim>\<open>operator new\<close> is taken to succeed and to return an address
  that was never used before.

  The element type \<^verbatim>\<open>T\<close> is a type variable. Its copy operations may throw: the
  world carries a script with one entry per upcoming copy, \<open>True\<close> for a copy that
  throws; an exhausted script means that no further copy throws. Moves, default
  construction and destruction of elements do not throw.
\<close>

type_synonym addr = nat

record 'a storage =
  size_fld :: "nat option"
  capacity_fld :: "nat option"
  ref_count :: "nat option"
  data :: "'a option list"

record 'a world =
  heap :: "'a storage option list"
  script :: "bool list"

datatype exn = Runtime_error string | Bad_variant_access | Copy_failure

datatype ('r, 's) outcome = Returns 'r 's | Throws exn 's | Undefined

text \<open>Pointers to elements: null, a slot of a heap block, or the inline element.\<close>

datatype ptr = Nullp | Elem addr nat | Inline nat

definition sz64 :: "nat \<Rightarrow> nat" where
  "sz64 n = n mod 2 ^ 64"

definition dec64 :: "nat \<Rightarrow> nat" where
  "dec64 n = (if n = 0 then 2 ^ 64 - 1 else n - 1)"

definition sub64 :: "nat \<Rightarrow> nat \<Rightarrow> nat" where
  "sub64 a b = (a + 2 ^ 64 - b) mod 2 ^ 64"

fun need :: "'x option \<Rightarrow> ('x \<Rightarrow> ('r, 's) outcome) \<Rightarrow> ('r, 's) outcome" where
  "need None f = Undefined"
| "need (Some x) f = f x"

text \<open>
  The heap is the list of all blocks ever allocated, a block's address is its
  position, and a released block leaves \<open>None\<close> behind.
\<close>

definition block_at :: "'a world \<Rightarrow> addr \<Rightarrow> 'a storage option" where
  "block_at w p = (if p < length (heap w) then heap w ! p else None)"

definition put_block :: "'a world \<Rightarrow> addr \<Rightarrow> 'a storage option \<Rightarrow> 'a world" where
  "put_block w p b = w\<lparr>heap := (heap w)[p := b]\<rparr>"

definition rd_size :: "'a world \<Rightarrow> addr \<Rightarrow> nat option" where
  "rd_size w p = (case block_at w p of None \<Rightarrow> None | Some b \<Rightarrow> size_fld b)"

definition rd_capacity :: "'a world \<Rightarrow> addr \<Rightarrow> nat option" where
  "rd_capacity w p = (case block_at w p of None \<Rightarrow> None | Some b \<Rightarrow> capacity_fld b)"

definition rd_ref_count :: "'a world \<Rightarrow> addr \<Rightarrow> nat option" where
  "rd_ref_count w p = (case block_at w p of None \<Rightarrow> None | Some b \<Rightarrow> ref_count b)"

definition wr_size :: "'a world \<Rightarrow> addr \<Rightarrow> nat \<Rightarrow> 'a world option" where
  "wr_size w p n = (case block_at w p of None \<Rightarrow> None
     | Some b \<Rightarrow> Some (put_block w p (Some (b\<lparr>size_fld := Some n\<rparr>))))"

definition wr_capacity :: "'a world \<Rightarrow> addr \<Rightarrow> nat \<Rightarrow> 'a world option" where
  "wr_capacity w p n = (case block_at w p of None \<Rightarrow> None
     | Some b \<Rightarrow> Some (put_block w p (Some (b\<lparr>capacity_fld := Some n\<rparr>))))"

definition wr_ref_count :: "'a world \<Rightarrow> addr \<Rightarrow> nat \<Rightarrow> 'a world option" where
  "wr_ref_count w p n = (case block_at w p of None \<Rightarrow> None
     | Some b \<Rightarrow> Some (put_block w p (Some (b\<lparr>ref_count := Some n\<rparr>))))"

definition rd_slot :: "'a world \<Rightarrow> addr \<Rightarrow> nat \<Rightarrow> 'a option" where
  "rd_slot w p i = (case block_at w p of None \<Rightarrow> None
     | Some b \<Rightarrow> if i < length (data b) then data b ! i else None)"

definition wr_slot :: "'a world \<Rightarrow> addr \<Rightarrow> nat \<Rightarrow> 'a \<Rightarrow> 'a world option" where
  "wr_slot w p i x = (case block_at w p of None \<Rightarrow> None
     | Some b \<Rightarrow> if i < length (data b)
         then Some (put_block w p (Some (b\<lparr>data := (data b)[i := Some x]\<rparr>)))
         else None)"

text \<open>\<^verbatim>\<open>std::destroy_at\<close>: the slot holds no object afterwards.\<close>

definition destroy_at :: "'a world \<Rightarrow> addr \<Rightarrow> nat \<Rightarrow> 'a world option" where
  "destroy_at w p i = (case block_at w p of None \<Rightarrow> None
     | Some b \<Rightarrow> if i < length (data b)
         then Some (put_block w p (Some (b\<lparr>data := (data b)[i := None]\<rparr>)))
         else None)"

text \<open>\<^verbatim>\<open>std::destroy(first, last)\<close> on the \<open>n\<close> slots from slot \<open>i\<close> of block \<open>p\<close>.\<close>

fun destroy_n :: "'a world \<Rightarrow> addr \<Rightarrow> nat \<Rightarrow> nat \<Rightarrow> 'a world option" where
  "destroy_n w p i 0 = Some w"
| "destroy_n w p i (Suc n) =
     (case destroy_at w p i of None \<Rightarrow> None | Some w1 \<Rightarrow> destroy_n w1 p (Suc i) n)"

definition destroy :: "'a world \<Rightarrow> ptr \<Rightarrow> ptr \<Rightarrow> 'a world option" where
  "destroy w fr la =
     (case (fr, la) of
        (Nullp, Nullp) \<Rightarrow> Some w
      | (Elem p i, Elem q j) \<Rightarrow> if p = q \<and> i \<le> j then destroy_n w p i (j - i) else None
      | _ \<Rightarrow> None)"

text \<open>\<^verbatim>\<open>make_storage(cp)\<close>: raw memory for a header and \<open>cp\<close> elements.\<close>

definition make_storage :: "'a world \<Rightarrow> nat \<Rightarrow> addr \<times> 'a world" where
  "make_storage w cp =
     (length (heap w),
      w\<lparr>heap := heap w @
           [Some \<lparr>size_fld = None, capacity_fld = None, ref_count = None,
                   data = replicate cp None\<rparr>]\<rparr>)"

definition operator_delete :: "'a world \<Rightarrow> addr \<Rightarrow> 'a world option" where
  "operator_delete w p = (case block_at w p of None \<Rightarrow> None
     | Some b \<Rightarrow> Some (put_block w p None))"

text \<open>One copy of an element (copy construction or copy assignment of \<^verbatim>\<open>T\<close>).\<close>

definition copy_T :: "'a world \<Rightarrow> 'a \<Rightarrow> ('a, 'a world) outcome" where
  "copy_T w x =
     (case script w of
        [] \<Rightarrow> Returns x w
      | t # ts \<Rightarrow> if t then Throws Copy_failure (w\<lparr>script := ts\<rparr>)
                  else Returns x (w\<lparr>script := ts\<rparr>))"

text \<open>Placement copy construction \<^verbatim>\<open>new (p->data + i) T(x)\<close>.\<close>

definition construct_at :: "'a world \<Rightarrow> addr \<Rightarrow> nat \<Rightarrow> 'a \<Rightarrow> (unit, 'a world) outcome" where
  "construct_at w p i x =
     (case copy_T w x of
        Undefined \<Rightarrow> Undefined
      | Throws e w1 \<Rightarrow> Throws e w1
      | Returns y w1 \<Rightarrow> need (wr_slot w1 p i y) (\<lambda>w2. Returns () w2))"

text \<open>
  \<^verbatim>\<open>std::uninitialized_copy\<close>: \<open>n\<close> elements from slot \<open>i\<close> of block \<open>src\<close> are copy
  constructed, front to back, into the slots from slot \<open>j\<close> of block \<open>dst\<close>; \<open>k\<close>
  counts the elements done. When a copy throws, the elements constructed so far are
  destroyed and the exception is passed on.
\<close>

fun uninitialized_copy_n ::
  "'a world \<Rightarrow> addr \<Rightarrow> nat \<Rightarrow> addr \<Rightarrow> nat \<Rightarrow> nat \<Rightarrow> nat \<Rightarrow> (unit, 'a world) outcome" where
  "uninitialized_copy_n w src i dst j k 0 = Returns () w"
| "uninitialized_copy_n w src i dst j k (Suc n) =
     need (rd_slot w src (i + k)) (\<lambda>x.
       case construct_at w dst (j + k) x of
         Undefined \<Rightarrow> Undefined
       | Throws e w1 \<Rightarrow> need (destroy_n w1 dst j k) (\<lambda>w2. Throws e w2)
       | Returns u w1 \<Rightarrow> uninitialized_copy_n w1 src i dst j (Suc k) n)"

definition uninitialized_copy :: "'a world \<Rightarrow> ptr \<Rightarrow> ptr \<Rightarrow> ptr \<Rightarrow> (unit, 'a world) outcome" where
  "uninitialized_copy w fr la dest =
     (case (fr, la) of
        (Nullp, Nullp) \<Rightarrow> Returns () w
      | (Elem p i, Elem q j) \<Rightarrow>
          if p = q \<and> i \<le> j then
            (if i = j then Returns () w
             else (case dest of Elem d k \<Rightarrow> uninitialized_copy_n w p i d k 0 (j - i)
                   | _ \<Rightarrow> Undefined))
          else Undefined
      | _ \<Rightarrow> Undefined)"

section \<open>bigvector: the reference counted buffer\<close>

text \<open>A \<^verbatim>\<open>bigvector\<close> is its one field, the pointer \<^verbatim>\<open>store\<close> (\<open>None\<close> is null).\<close>

type_synonym bigvector = "addr option"

definition bv_begin :: "bigvector \<Rightarrow> ptr" where
  "bv_begin s = (case s of None \<Rightarrow> Nullp | Some p \<Rightarrow> Elem p 0)"

definition bv_end :: "'a world \<Rightarrow> bigvector \<Rightarrow> ptr option" where
  "bv_end w s = (case s of None \<Rightarrow> Some Nullp
     | Some p \<Rightarrow> (case rd_size w p of None \<Rightarrow> None | Some n \<Rightarrow> Some (Elem p n)))"

definition bv_size :: "'a world \<Rightarrow> bigvector \<Rightarrow> nat option" where
  "bv_size w s = (case s of None \<Rightarrow> Some 0 | Some p \<Rightarrow> rd_size w p)"

definition bv_capacity :: "'a world \<Rightarrow> bigvector \<Rightarrow> nat option" where
  "bv_capacity w s = (case s of None \<Rightarrow> Some 0 | Some p \<Rightarrow> rd_capacity w p)"

text \<open>
  The end of a mutating member that built the block \<open>tmp\<close>: the old block is torn
  down when this buffer was its only owner and loses one reference otherwise.
\<close>

definition release_old :: "'a world \<Rightarrow> addr \<Rightarrow> 'a world option" where
  "release_old w p =
     (case rd_ref_count w p of None \<Rightarrow> None
      | Some rc \<Rightarrow>
          if rc = 1 then
            (case bv_end w (Some p) of None \<Rightarrow> None
             | Some e \<Rightarrow> (case destroy w (bv_begin (Some p)) e of None \<Rightarrow> None
                 | Some w1 \<Rightarrow> operator_delete w1 p))
          else wr_ref_count w p (dec64 rc))"

text \<open>\<^verbatim>\<open>bigvector::push_back\<close>.\<close>

definition bv_push_back :: "'a world \<Rightarrow> bigvector \<Rightarrow> 'a \<Rightarrow> (unit, 'a world \<times> bigvector) outcome" where
  "bv_push_back w s elem =
     need (bv_size w s) (\<lambda>sz. need (bv_capacity w s) (\<lambda>cap.
     need (if sz = cap then Some True
           else (case s of None \<Rightarrow> None
                 | Some p \<Rightarrow> map_option (\<lambda>rc. 1 < rc) (rd_ref_count w p))) (\<lambda>realloc.
     if realloc then
       (let cap_needed = (if sz = cap then (if 0 < cap then sz64 (cap * 2) else 2) else cap);
            (tmp, w1) = make_storage w cap_needed
        in need (bv_end w1 s) (\<lambda>e.
           case uninitialized_copy w1 (bv_begin s) e (Elem tmp 0) of
             Undefined \<Rightarrow> Undefined
           | Throws x w2 \<Rightarrow> need (operator_delete w2 tmp) (\<lambda>w3. Throws x (w3, s))
           | Returns u w2 \<Rightarrow>
               (case construct_at w2 tmp sz elem of
                  Undefined \<Rightarrow> Undefined
                | Throws x w3 \<Rightarrow>
                    need (destroy w3 (Elem tmp 0) (Elem tmp sz)) (\<lambda>w4.
                    need (operator_delete w4 tmp) (\<lambda>w5. Throws x (w5, s)))
                | Returns u w3 \<Rightarrow>
                    need (case s of
                            None \<Rightarrow> wr_size w3 tmp 1
                          | Some p \<Rightarrow>
                              (case rd_size w3 p of None \<Rightarrow> None
                               | Some n \<Rightarrow> (case wr_size w3 tmp (sz64 (n + 1)) of None \<Rightarrow> None
                                   | Some w4 \<Rightarrow> release_old w4 p))) (\<lambda>w5.
                    need (wr_capacity w5 tmp cap_needed) (\<lambda>w6.
                    need (wr_ref_count w6 tmp 1) (\<lambda>w7.
                    Returns () (w7, Some tmp)))))))
     else
       (case s of None \<Rightarrow> Undefined
        | Some p \<Rightarrow>
            need (rd_size w p) (\<lambda>n.
            case construct_at w p n elem of
              Undefined \<Rightarrow> Undefined
            | Throws x w1 \<Rightarrow> Throws x (w1, s)
            | Returns u w1 \<Rightarrow>
                need (rd_size w1 p) (\<lambda>n1. need (wr_size w1 p (sz64 (n1 + 1))) (\<lambda>w2.
                Returns () (w2, s))))))))"

text \<open>\<^verbatim>\<open>bigvector::unique_copy\<close>.\<close>

definition unique_copy :: "'a world \<Rightarrow> bigvector \<Rightarrow> (unit, 'a world \<times> bigvector) outcome" where
  "unique_copy w s =
     (case s of
        None \<Rightarrow> Returns () (w, s)
      | Some p \<Rightarrow>
          need (rd_ref_count w p) (\<lambda>rc.
          if rc = 1 then Returns () (w, s)
          else
            need (rd_capacity w p) (\<lambda>cap.
            let (tmp, w1) = make_storage w cap
            in need (bv_end w1 s) (\<lambda>e.
               case uninitialized_copy w1 (bv_begin s) e (Elem tmp 0) of
                 Undefined \<Rightarrow> Undefined
               | Throws x w2 \<Rightarrow> need (operator_delete w2 tmp) (\<lambda>w3. Throws x (w3, s))
               | Returns u w2 \<Rightarrow>
                   need (rd_size w2 p) (\<lambda>n. need (wr_size w2 tmp n) (\<lambda>w3.
                   need (rd_capacity w3 p) (\<lambda>c. need (wr_capacity w3 tmp c) (\<lambda>w4.
                   need (wr_ref_count w4 tmp 1) (\<lambda>w5.
                   need (rd_ref_count w5 p) (\<lambda>r. need (wr_ref_count w5 p (dec64 r)) (\<lambda>w6.
                   Returns () (w6, Some tmp))))))))))))"

text \<open>The copy constructor shares the block and counts one more reference.\<close>

definition bv_copy_ctor :: "'a world \<Rightarrow> bigvector \<Rightarrow> ('a world \<times> bigvector) option" where
  "bv_copy_ctor w other =
     (case other of
        None \<Rightarrow> Some (w, None)
      | Some p \<Rightarrow>
          (case rd_ref_count w p of None \<Rightarrow> None
           | Some rc \<Rightarrow> (case wr_ref_count w p (sz64 (rc + 1)) of None \<Rightarrow> None
               | Some w1 \<Rightarrow> Some (w1, Some p))))"

text \<open>
  \<^verbatim>\<open>bigvector(InputIterator beg, InputIterator en)\<close>; the range is given as the list
  of its elements. The source copies from \<^verbatim>\<open>begin()\<close> and \<^verbatim>\<open>end()\<close> of the buffer
  under construction and sets no header field.
\<close>

definition bv_from_range :: "'a world \<Rightarrow> 'a list \<Rightarrow> (bigvector, 'a world) outcome" where
  "bv_from_range w xs =
     (let len = length xs in
      if len \<le> 0 then Returns None w
      else
        (let (p, w1) = make_storage w len
         in need (bv_end w1 (Some p)) (\<lambda>e.
            case uninitialized_copy w1 (bv_begin (Some p)) e (Elem p 0) of
              Undefined \<Rightarrow> Undefined
            | Throws x w2 \<Rightarrow> need (operator_delete w2 p) (\<lambda>w3. Throws x w3)
            | Returns u w2 \<Rightarrow> Returns (Some p) w2)))"

text \<open>\<^verbatim>\<open>bigvector::operator=\<close>.\<close>

definition bv_assign :: "'a world \<Rightarrow> bigvector \<Rightarrow> bigvector \<Rightarrow> (unit, 'a world \<times> bigvector) outcome" where
  "bv_assign w s other =
     (if other = s then Returns () (w, s)
      else
        need (case s of
                Some p \<Rightarrow>
                  (case bv_end w s of None \<Rightarrow> None
                   | Some e \<Rightarrow> (case destroy w (bv_begin s) e of None \<Rightarrow> None
                       | Some w1 \<Rightarrow> operator_delete w1 p))
              | None \<Rightarrow> None) (\<lambda>w2.
        need (case other of
                None \<Rightarrow> Some w2
              | Some q \<Rightarrow>
                  (case rd_ref_count w2 q of None \<Rightarrow> None
                   | Some rc \<Rightarrow> wr_ref_count w2 q (sz64 (rc + 1)))) (\<lambda>w3.
        Returns () (w3, other))))"

text \<open>\<^verbatim>\<open>~bigvector\<close>.\<close>

definition bv_dtor :: "'a world \<Rightarrow> bigvector \<Rightarrow> 'a world option" where
  "bv_dtor w s =
     (case s of
        None \<Rightarrow> Some w
      | Some p \<Rightarrow>
          (case rd_ref_count w p of None \<Rightarrow> None
           | Some rc \<Rightarrow>
               if 1 < rc then wr_ref_count w p (rc - 1)
               else
                 (case bv_end w s of None \<Rightarrow> None
                  | Some e \<Rightarrow> (case destroy w (bv_begin s) e of None \<Rightarrow> None
                      | Some w1 \<Rightarrow> operator_delete w1 p))))"

text \<open>\<^verbatim>\<open>bigvector::operator[]\<close>, mutable and const; the result is the element's address.\<close>

definition bv_subscript :: "'a world \<Rightarrow> bigvector \<Rightarrow> nat \<Rightarrow> (ptr, 'a world \<times> bigvector) outcome" where
  "bv_subscript w s index =
     need (case s of None \<Rightarrow> Some False
           | Some p \<Rightarrow> map_option (\<lambda>n. n \<le> index) (rd_size w p)) (\<lambda>out_of_range.
     if out_of_range then Throws (Runtime_error ''vector index out of range'') (w, s)
     else
       (case unique_copy w s of
          Undefined \<Rightarrow> Undefined
        | Throws x st \<Rightarrow> Throws x st
        | Returns u (w1, s1) \<Rightarrow>
            (case s1 of None \<Rightarrow> Undefined | Some p \<Rightarrow> Returns (Elem p index) (w1, s1))))"

definition bv_subscript_const :: "'a world \<Rightarrow> bigvector \<Rightarrow> nat \<Rightarrow> (ptr, 'a world \<times> bigvector) outcome" where
  "bv_subscript_const w s index =
     need (case s of None \<Rightarrow> Some False
           | Some p \<Rightarrow> map_option (\<lambda>n. n \<le> index) (rd_size w p)) (\<lambda>out_of_range.
     if out_of_range then Throws (Runtime_error ''vector index out of range'') (w, s)
     else (case s of None \<Rightarrow> Undefined | Some p \<Rightarrow> Returns (Elem p index) (w, s)))"

text \<open>
  The slots \<open>i, \<dots>, i + n - 1\<close> of a block as they are, and the elements read from
  them; a slot outside the block or without an object cannot be read.
\<close>

fun slots_n :: "'a world \<Rightarrow> addr \<Rightarrow> nat \<Rightarrow> nat \<Rightarrow> 'a option list option" where
  "slots_n w p i 0 = Some []"
| "slots_n w p i (Suc n) =
     (case block_at w p of None \<Rightarrow> None
      | Some b \<Rightarrow> if i < length (data b)
          then (case slots_n w p (Suc i) n of None \<Rightarrow> None | Some r \<Rightarrow> Some (data b ! i # r))
          else None)"

fun read_all :: "'a option list \<Rightarrow> 'a list option" where
  "read_all [] = Some []"
| "read_all (None # r) = None"
| "read_all (Some x # r) = (case read_all r of None \<Rightarrow> None | Some xs \<Rightarrow> Some (x # xs))"

text \<open>
  \<^verbatim>\<open>std::equal\<close> on two ranges of the same length: pairwise, front to back, up to
  the first difference.
\<close>

fun equal_slots :: "'a option list \<Rightarrow> 'a option list \<Rightarrow> bool option" where
  "equal_slots [] [] = Some True"
| "equal_slots (x # xs) (y # ys) =
     (case (x, y) of
        (Some a, Some b) \<Rightarrow> if a = b then equal_slots xs ys else Some False
      | _ \<Rightarrow> None)"
| "equal_slots xs ys = Some False"

definition bv_slots :: "'a world \<Rightarrow> bigvector \<Rightarrow> 'a option list option" where
  "bv_slots w s =
     (case s of None \<Rightarrow> Some []
      | Some p \<Rightarrow> (case rd_size w p of None \<Rightarrow> None | Some n \<Rightarrow> slots_n w p 0 n))"

text \<open>\<^verbatim>\<open>operator==\<close> of \<^verbatim>\<open>bigvector\<close>; \<open>None\<close> is undefined behaviour.\<close>

definition bv_eq :: "'a world \<Rightarrow> bigvector \<Rightarrow> bigvector \<Rightarrow> bool option" where
  "bv_eq w a b =
     (if a = b then Some True
      else
        (case (a, b) of
           (Some p, Some q) \<Rightarrow>
             (case (rd_size w p, rd_size w q) of
                (Some m, Some n) \<Rightarrow>
                  if m \<noteq> n then Some False
                  else (case (bv_slots w a, bv_slots w b) of
                          (Some xs, Some ys) \<Rightarrow> equal_slots xs ys
                        | _ \<Rightarrow> None)
              | _ \<Rightarrow> None)
         | _ \<Rightarrow> None))"

text \<open>\<^verbatim>\<open>front\<close> and \<^verbatim>\<open>back\<close>, mutable.\<close>

definition bv_front :: "'a world \<Rightarrow> bigvector \<Rightarrow> (ptr, 'a world \<times> bigvector) outcome" where
  "bv_front w s =
     (case unique_copy w s of
        Undefined \<Rightarrow> Undefined
      | Throws x st \<Rightarrow> Throws x st
      | Returns u (w1, s1) \<Rightarrow> bv_subscript w1 s1 0)"

definition bv_back :: "'a world \<Rightarrow> bigvector \<Rightarrow> (ptr, 'a world \<times> bigvector) outcome" where
  "bv_back w s =
     (case unique_copy w s of
        Undefined \<Rightarrow> Undefined
      | Throws x st \<Rightarrow> Throws x st
      | Returns u (w1, s1) \<Rightarrow>
          (case s1 of None \<Rightarrow> Undefined
           | Some p \<Rightarrow> need (rd_size w1 p) (\<lambda>n. bv_subscript w1 s1 (dec64 n))))"

definition bv_front_const :: "'a world \<Rightarrow> bigvector \<Rightarrow> (ptr, 'a world \<times> bigvector) outcome" where
  "bv_front_const w s = bv_subscript_const w s 0"

definition bv_back_const :: "'a world \<Rightarrow> bigvector \<Rightarrow> (ptr, 'a world \<times> bigvector) outcome" where
  "bv_back_const w s =
     (case s of None \<Rightarrow> Undefined
      | Some p \<Rightarrow> need (rd_size w p) (\<lambda>n. bv_subscript_const w s (dec64 n)))"

text \<open>\<^verbatim>\<open>bigvector::pop_back\<close>.\<close>

definition bv_pop_back :: "'a world \<Rightarrow> bigvector \<Rightarrow> (unit, 'a world \<times> bigvector) outcome" where
  "bv_pop_back w s =
     (case unique_copy w s of
        Undefined \<Rightarrow> Undefined
      | Throws x st \<Rightarrow> Throws x st
      | Returns u (w1, s1) \<Rightarrow>
          (case s1 of None \<Rightarrow> Undefined
           | Some p \<Rightarrow>
               need (rd_size w1 p) (\<lambda>n. need (wr_size w1 p (dec64 n)) (\<lambda>w2.
               need (destroy_at w2 p (dec64 n)) (\<lambda>w3. Returns () (w3, s1))))))"

text \<open>\<^verbatim>\<open>bigvector::data\<close>, mutable and const.\<close>

definition bv_data :: "'a world \<Rightarrow> bigvector \<Rightarrow> (ptr, 'a world \<times> bigvector) outcome" where
  "bv_data w s =
     (case unique_copy w s of
        Undefined \<Rightarrow> Undefined
      | Throws x st \<Rightarrow> Throws x st
      | Returns u (w1, s1) \<Rightarrow> Returns (bv_begin s1) (w1, s1))"

definition bv_data_const :: "bigvector \<Rightarrow> ptr" where
  "bv_data_const s = bv_begin s"

text \<open>\<^verbatim>\<open>bigvector::reserve\<close>.\<close>

definition bv_reserve :: "'a world \<Rightarrow> bigvector \<Rightarrow> nat \<Rightarrow> (unit, 'a world \<times> bigvector) outcome" where
  "bv_reserve w s cap =
     need (bv_capacity w s) (\<lambda>c.
     if cap \<le> c then Returns () (w, s)
     else
       (let (tmp, w1) = make_storage w cap
        in need (bv_end w1 s) (\<lambda>e.
           case uninitialized_copy w1 (bv_begin s) e (Elem tmp 0) of
             Undefined \<Rightarrow> Undefined
           | Throws x w2 \<Rightarrow> need (operator_delete w2 tmp) (\<lambda>w3. Throws x (w3, s))
           | Returns u w2 \<Rightarrow>
               need (case s of
                       None \<Rightarrow> wr_size w2 tmp 0
                     | Some p \<Rightarrow>
                         (case rd_size w2 p of None \<Rightarrow> None
                          | Some n \<Rightarrow> (case wr_size w2 tmp n of None \<Rightarrow> None
                              | Some w3 \<Rightarrow> release_old w3 p))) (\<lambda>w4.
               need (wr_capacity w4 tmp cap) (\<lambda>w5.
               need (wr_ref_count w5 tmp 1) (\<lambda>w6.
               Returns () (w6, Some tmp)))))))"

text \<open>
  \<^verbatim>\<open>bigvector::shrink_to_fit\<close>. With no element left, the sole owner destroys and
  releases the block and keeps the pointer; a co-owner gives up its reference and
  sets the pointer to null.
\<close>

definition bv_shrink_to_fit :: "'a world \<Rightarrow> bigvector \<Rightarrow> (unit, 'a world \<times> bigvector) outcome" where
  "bv_shrink_to_fit w s =
     need (bv_size w s) (\<lambda>sz. need (bv_capacity w s) (\<lambda>cap.
     if sz = cap then Returns () (w, s)
     else
       (case s of
          None \<Rightarrow> Undefined
        | Some p \<Rightarrow>
            if sz = 0 then
              need (rd_ref_count w p) (\<lambda>rc.
              if rc = 1 then
                need (bv_end w s) (\<lambda>e. need (destroy w (bv_begin s) e) (\<lambda>w1.
                need (operator_delete w1 p) (\<lambda>w2. Returns () (w2, s))))
              else
                need (wr_ref_count w p (dec64 rc)) (\<lambda>w1. Returns () (w1, None)))
            else
              need (rd_size w p) (\<lambda>n.
              let (tmp, w1) = make_storage w n
              in need (bv_end w1 s) (\<lambda>e.
                 case uninitialized_copy w1 (bv_begin s) e (Elem tmp 0) of
                   Undefined \<Rightarrow> Undefined
                 | Throws x w2 \<Rightarrow> need (operator_delete w2 tmp) (\<lambda>w3. Throws x (w3, s))
                 | Returns u w2 \<Rightarrow>
                     need (rd_size w2 p) (\<lambda>n1. need (wr_capacity w2 tmp n1) (\<lambda>w3.
                     need (rd_size w3 p) (\<lambda>n2. need (wr_size w3 tmp n2) (\<lambda>w4.
                     need (wr_ref_count w4 tmp 1) (\<lambda>w5.
                     need (release_old w5 p) (\<lambda>w6.
                     Returns () (w6, Some tmp))))))))))))"

text \<open>\<^verbatim>\<open>bigvector::shorten\<close>.\<close>

definition shorten :: "'a world \<Rightarrow> bigvector \<Rightarrow> nat \<Rightarrow> (unit, 'a world \<times> bigvector) outcome" where
  "shorten w s sz =
     need (bv_size w s) (\<lambda>n.
     if sz = n then Returns () (w, s)
     else
       (case s of
          None \<Rightarrow> Undefined
        | Some p \<Rightarrow>
            need (rd_ref_count w p) (\<lambda>rc.
            if rc = 1 then
              need (bv_end w s) (\<lambda>e. need (destroy w (Elem p sz) e) (\<lambda>w1.
              need (wr_size w1 p sz) (\<lambda>w2. Returns () (w2, s))))
            else
              need (rd_capacity w p) (\<lambda>cap.
              let (tmp, w1) = make_storage w cap
              in case uninitialized_copy w1 (bv_begin s) (Elem p sz) (Elem tmp 0) of
                   Undefined \<Rightarrow> Undefined
                 | Throws x w2 \<Rightarrow> need (operator_delete w2 tmp) (\<lambda>w3. Throws x (w3, s))
                 | Returns u w2 \<Rightarrow>
                     need (wr_size w2 tmp sz) (\<lambda>w3.
                     need (rd_capacity w3 p) (\<lambda>c. need (wr_capacity w3 tmp c) (\<lambda>w4.
                     need (wr_ref_count w4 tmp 1) (\<lambda>w5.
                     need (rd_ref_count w5 p) (\<lambda>r. need (wr_ref_count w5 p (dec64 r)) (\<lambda>w6.
                     Returns () (w6, Some tmp)))))))))))"

text \<open>
  \<^verbatim>\<open>std::fill_n\<close>: \<open>n\<close> copy assignments \<^verbatim>\<open>p->data[i] = x\<close> to the slots from slot
  \<open>i\<close> of block \<open>p\<close>; a throwing copy ends it with nothing undone.
\<close>

definition assign_at :: "'a world \<Rightarrow> addr \<Rightarrow> nat \<Rightarrow> 'a \<Rightarrow> (unit, 'a world) outcome" where
  "assign_at w p i x =
     (case copy_T w x of
        Undefined \<Rightarrow> Undefined
      | Throws e w1 \<Rightarrow> Throws e w1
      | Returns y w1 \<Rightarrow> need (wr_slot w1 p i y) (\<lambda>w2. Returns () w2))"

fun fill_n :: "'a world \<Rightarrow> addr \<Rightarrow> nat \<Rightarrow> nat \<Rightarrow> 'a \<Rightarrow> (unit, 'a world) outcome" where
  "fill_n w p i 0 x = Returns () w"
| "fill_n w p i (Suc n) x =
     (case assign_at w p i x of
        Undefined \<Rightarrow> Undefined
      | Throws e w1 \<Rightarrow> Throws e w1
      | Returns u w1 \<Rightarrow> fill_n w1 p (Suc i) n x)"

text \<open>
  \<^verbatim>\<open>bigvector::resize_job\<close>. The handler of the fill in the reallocating branch
  destroys and releases the new block and does not rethrow, so that control goes
  on to the header writes.
\<close>

definition bv_resize_job :: "'a world \<Rightarrow> bigvector \<Rightarrow> nat \<Rightarrow> 'a \<Rightarrow> (unit, 'a world \<times> bigvector) outcome" where
  "bv_resize_job w s sz elem =
     need (bv_capacity w s) (\<lambda>cap. need (bv_size w s) (\<lambda>n.
     let new_cap = max cap sz
     in need (case s of None \<Rightarrow> Some True
              | Some p \<Rightarrow> if cap < new_cap then Some True
                          else map_option (\<lambda>rc. 1 < rc) (rd_ref_count w p)) (\<lambda>realloc.
        if realloc then
          (let (tmp, w1) = make_storage w new_cap
           in need (bv_end w1 s) (\<lambda>e.
              case uninitialized_copy w1 (bv_begin s) e (Elem tmp 0) of
                Undefined \<Rightarrow> Undefined
              | Throws x w2 \<Rightarrow> need (operator_delete w2 tmp) (\<lambda>w3. Throws x (w3, s))
              | Returns u w2 \<Rightarrow>
                  need (case fill_n w2 tmp n (sub64 sz n) elem of
                          Undefined \<Rightarrow> None
                        | Throws x w3 \<Rightarrow>
                            (case destroy w3 (Elem tmp 0) (Elem tmp n) of None \<Rightarrow> None
                             | Some w4 \<Rightarrow> operator_delete w4 tmp)
                        | Returns u w3 \<Rightarrow> Some w3) (\<lambda>w5.
                  need (wr_size w5 tmp sz) (\<lambda>w6.
                  need (wr_capacity w6 tmp new_cap) (\<lambda>w7.
                  need (wr_ref_count w7 tmp 1) (\<lambda>w8.
                  need (case s of None \<Rightarrow> Some w8 | Some p \<Rightarrow> release_old w8 p) (\<lambda>w9.
                  Returns () (w9, Some tmp))))))))
        else
          (case s of
             None \<Rightarrow> Undefined
           | Some p \<Rightarrow>
               (case fill_n w p n (sub64 sz n) elem of
                  Undefined \<Rightarrow> Undefined
                | Throws x w1 \<Rightarrow> Throws x (w1, s)
                | Returns u w1 \<Rightarrow> need (wr_size w1 p sz) (\<lambda>w2. Returns () (w2, s)))))))"

text \<open>\<^verbatim>\<open>bigvector::resize\<close>.\<close>

definition bv_resize :: "'a world \<Rightarrow> bigvector \<Rightarrow> nat \<Rightarrow> 'a \<Rightarrow> (unit, 'a world \<times> bigvector) outcome" where
  "bv_resize w s sz elem =
     need (bv_size w s) (\<lambda>n.
     if sz \<le> n then shorten w s sz else bv_resize_job w s sz elem)"

text \<open>
  A call of \<^verbatim>\<open>resize\<close> on a \<^verbatim>\<open>bigvector\<close> is resolved by its arguments against
  the overloads that \<^verbatim>\<open>bigvector\<close> declares. There is one,
  \<^verbatim>\<open>resize(size_t sz, T const &elem)\<close>. \<open>None\<close>: no declared overload takes the
  arguments, the call is ill-formed, and a member whose body contains it cannot be
  instantiated.
\<close>

datatype 'a argument = Size_arg nat | Value_arg 'a

fun bv_resize_call ::
  "'a world \<Rightarrow> bigvector \<Rightarrow> 'a argument list
     \<Rightarrow> (unit, 'a world \<times> bigvector) outcome option" where
  "bv_resize_call w s [Size_arg sz, Value_arg elem] = Some (bv_resize w s sz elem)"
| "bv_resize_call w s args = None"

text \<open>\<^verbatim>\<open>bigvector::clear\<close>: its body is the call \<^verbatim>\<open>resize(0)\<close>.\<close>

definition bv_clear ::
  "'a world \<Rightarrow> bigvector \<Rightarrow> (unit, 'a world \<times> bigvector) outcome option" where
  "bv_clear w s = bv_resize_call w s [Size_arg 0]"

text \<open>
  Pointer arithmetic. The difference of two pointers is taken as \<^verbatim>\<open>size_t\<close>, as
  the source stores it; it is defined for two pointers into the same array only.
\<close>

fun ptr_add :: "ptr \<Rightarrow> nat \<Rightarrow> ptr option" where
  "ptr_add Nullp n = (if n = 0 then Some Nullp else None)"
| "ptr_add (Elem p i) n = Some (Elem p (i + n))"
| "ptr_add (Inline i) n = Some (Inline (i + n))"

fun ptr_diff :: "ptr \<Rightarrow> ptr \<Rightarrow> nat option" where
  "ptr_diff Nullp Nullp = Some 0"
| "ptr_diff (Elem p i) (Elem q j) = (if p = q then Some (sub64 i j) else None)"
| "ptr_diff (Inline i) (Inline j) = Some (sub64 i j)"
| "ptr_diff a b = None"

text \<open>
  \<^verbatim>\<open>std::rotate(begin() + i, end() - 1, end())\<close> on a block with \<open>n\<close> live elements:
  the last element moves to slot \<open>i\<close>, the elements from \<open>i\<close> on move up by one.
\<close>

definition rotate_last :: "'a world \<Rightarrow> addr \<Rightarrow> nat \<Rightarrow> nat \<Rightarrow> 'a world option" where
  "rotate_last w p i n =
     (case block_at w p of None \<Rightarrow> None
      | Some b \<Rightarrow>
          if i < n \<and> n \<le> length (data b) then
            Some (put_block w p (Some (b\<lparr>data :=
              take i (data b) @ [data b ! (n - 1)] @ take (n - 1 - i) (drop i (data b))
                @ drop n (data b)\<rparr>)))
          else None)"

text \<open>
  \<^verbatim>\<open>std::move(first, last, d_first)\<close> inside one block, front to back: \<open>n\<close>
  elements from slot \<open>i\<close> are assigned to the slots from slot \<open>j\<close>.
\<close>

fun move_n :: "'a world \<Rightarrow> addr \<Rightarrow> nat \<Rightarrow> nat \<Rightarrow> nat \<Rightarrow> 'a world option" where
  "move_n w p i j 0 = Some w"
| "move_n w p i j (Suc n) =
     (case rd_slot w p i of None \<Rightarrow> None
      | Some x \<Rightarrow> (case wr_slot w p j x of None \<Rightarrow> None
          | Some w1 \<Rightarrow> move_n w1 p (Suc i) (Suc j) n))"

text \<open>\<^verbatim>\<open>bigvector::insert\<close>; the result is the iterator to the new element.\<close>

definition bv_insert :: "'a world \<Rightarrow> bigvector \<Rightarrow> ptr \<Rightarrow> 'a \<Rightarrow> (ptr, 'a world \<times> bigvector) outcome" where
  "bv_insert w s pos elem =
     need (ptr_diff pos (bv_begin s)) (\<lambda>index. need (bv_end w s) (\<lambda>e.
     if pos = e then
       (case bv_push_back w s elem of
          Undefined \<Rightarrow> Undefined
        | Throws x st \<Rightarrow> Throws x st
        | Returns u (w1, s1) \<Rightarrow> need (ptr_add (bv_begin s1) index) (\<lambda>r. Returns r (w1, s1)))
     else
       need (bv_size w s) (\<lambda>sz. need (bv_capacity w s) (\<lambda>cap.
       need (if sz = cap then Some True
             else (case s of None \<Rightarrow> None
                   | Some p \<Rightarrow> map_option (\<lambda>rc. 1 < rc) (rd_ref_count w p))) (\<lambda>realloc.
       if realloc then
         (let cap_needed = (if sz = cap then (if 0 < cap then sz64 (cap * 2) else 2) else cap);
              (tmp, w1) = make_storage w cap_needed
          in case uninitialized_copy w1 (bv_begin s) pos (Elem tmp 0) of
               Undefined \<Rightarrow> Undefined
             | Throws x w2 \<Rightarrow> need (operator_delete w2 tmp) (\<lambda>w3. Throws x (w3, s))
             | Returns u w2 \<Rightarrow>
                 (case construct_at w2 tmp index elem of
                    Undefined \<Rightarrow> Undefined
                  | Throws x w3 \<Rightarrow>
                      need (destroy w3 (Elem tmp 0) (Elem tmp index)) (\<lambda>w4.
                      need (operator_delete w4 tmp) (\<lambda>w5. Throws x (w5, s)))
                  | Returns u w3 \<Rightarrow>
                      need (bv_end w3 s) (\<lambda>e1.
                      case uninitialized_copy w3 pos e1 (Elem tmp (index + 1)) of
                        Undefined \<Rightarrow> Undefined
                      | Throws x w4 \<Rightarrow>
                          need (destroy w4 (Elem tmp 0) (Elem tmp (index + 1))) (\<lambda>w5.
                          need (operator_delete w5 tmp) (\<lambda>w6. Throws x (w6, s)))
                      | Returns u w4 \<Rightarrow>
                          (case s of
                             None \<Rightarrow> Undefined
                           | Some p \<Rightarrow>
                               need (rd_size w4 p) (\<lambda>n.
                               need (wr_size w4 tmp (sz64 (n + 1))) (\<lambda>w5.
                               need (wr_capacity w5 tmp cap_needed) (\<lambda>w6.
                               need (wr_ref_count w6 tmp 1) (\<lambda>w7.
                               need (release_old w7 p) (\<lambda>w8.
                               need (ptr_add (bv_begin (Some tmp)) index) (\<lambda>r.
                               Returns r (w8, Some tmp)))))))))))
       else
         (case s of
            None \<Rightarrow> Undefined
          | Some p \<Rightarrow>
              need (rd_size w p) (\<lambda>n.
              case construct_at w p n elem of
                Undefined \<Rightarrow> Undefined
              | Throws x w1 \<Rightarrow> Throws x (w1, s)
              | Returns u w1 \<Rightarrow>
                  need (rd_size w1 p) (\<lambda>n1. need (wr_size w1 p (sz64 (n1 + 1))) (\<lambda>w2.
                  need (rotate_last w2 p index (sz64 (n1 + 1))) (\<lambda>w3.
                  need (ptr_add (bv_begin s) index) (\<lambda>r. Returns r (w3, s))))))))))))"

text \<open>
  \<^verbatim>\<open>bigvector::erase\<close>. In the branch for a shared block, the handler of the first
  copy releases the new block and does not rethrow, and the second copy has the
  old block \<^verbatim>\<open>store->data + left\<close> as its destination.
\<close>

definition bv_erase :: "'a world \<Rightarrow> bigvector \<Rightarrow> ptr \<Rightarrow> ptr \<Rightarrow> (ptr, 'a world \<times> bigvector) outcome" where
  "bv_erase w s beg en =
     (if beg = en then
        need (ptr_diff beg (bv_begin s)) (\<lambda>d.
        need (ptr_add (bv_begin s) d) (\<lambda>r. Returns r (w, s)))
      else
        need (ptr_diff beg (bv_begin s)) (\<lambda>left.
        need (ptr_diff en (bv_begin s)) (\<lambda>right.
        need (bv_end w s) (\<lambda>e.
        if en = e then
          (case unique_copy w s of
             Undefined \<Rightarrow> Undefined
           | Throws x st \<Rightarrow> Throws x st
           | Returns u (w1, s1) \<Rightarrow>
               need (ptr_add (bv_begin s1) left) (\<lambda>b1. need (bv_end w1 s1) (\<lambda>e1.
               need (destroy w1 b1 e1) (\<lambda>w2.
               case s1 of
                 None \<Rightarrow> Undefined
               | Some p \<Rightarrow>
                   need (rd_size w2 p) (\<lambda>n.
                   need (wr_size w2 p (sub64 n (sub64 right left))) (\<lambda>w3.
                   Returns b1 (w3, s1)))))))
        else
          (case s of
             None \<Rightarrow> Undefined
           | Some p \<Rightarrow>
               need (rd_ref_count w p) (\<lambda>rc.
               if 1 < rc then
                 need (rd_capacity w p) (\<lambda>cap.
                 let (tmp, w1) = make_storage w cap
                 in need (case uninitialized_copy w1 (bv_begin s) beg (Elem tmp 0) of
                            Undefined \<Rightarrow> None
                          | Throws x w2 \<Rightarrow> operator_delete w2 tmp
                          | Returns u w2 \<Rightarrow> Some w2) (\<lambda>w3.
                    need (bv_end w3 s) (\<lambda>e1.
                    case uninitialized_copy w3 en e1 (Elem p left) of
                      Undefined \<Rightarrow> Undefined
                    | Throws x w4 \<Rightarrow>
                        need (destroy w4 (Elem tmp 0) (Elem tmp left)) (\<lambda>w5.
                        need (operator_delete w5 tmp) (\<lambda>w6. Throws x (w6, s)))
                    | Returns u w4 \<Rightarrow>
                        need (rd_size w4 p) (\<lambda>n.
                        need (wr_size w4 tmp (sz64 (sub64 n right + left))) (\<lambda>w5.
                        need (rd_capacity w5 p) (\<lambda>c. need (wr_capacity w5 tmp c) (\<lambda>w6.
                        need (wr_ref_count w6 tmp 1) (\<lambda>w7.
                        need (rd_ref_count w7 p) (\<lambda>r.
                        need (if r = 1
                              then (case bv_end w7 s of None \<Rightarrow> None
                                    | Some e2 \<Rightarrow> destroy w7 (bv_begin s) e2)
                              else wr_ref_count w7 p (dec64 r)) (\<lambda>w8.
                        need (ptr_add (bv_begin (Some tmp)) left) (\<lambda>res.
                        Returns res (w8, Some tmp))))))))))))
               else
                 need (rd_size w p) (\<lambda>n.
                 need (if right \<le> n then move_n w p right left (n - right) else None) (\<lambda>w1.
                 need (destroy w1 (Elem p (sz64 (sub64 n right + left))) (Elem p n)) (\<lambda>w2.
                 need (wr_size w2 p (sub64 n (sub64 right left))) (\<lambda>w3.
                 Returns (Elem p left) (w3, s)))))))))))"

section \<open>vector: the facade over \<^verbatim>\<open>std::variant\<close>\<close>

text \<open>
  \<^verbatim>\<open>std::variant<std::monostate, T, bigvector>\<close>, alternatives 0, 1 and 2. Asking
  for alternative 2 of a variant that holds another one throws
  \<^verbatim>\<open>std::bad_variant_access\<close>.
\<close>

datatype 'a vec_data = Monostate | Single 'a | Big bigvector

fun index_of :: "'a vec_data \<Rightarrow> nat" where
  "index_of Monostate = 0"
| "index_of (Single a) = 1"
| "index_of (Big s) = 2"

text \<open>A member of the facade that hands over to the \<^verbatim>\<open>bigvector\<close> it holds.\<close>

definition lift_big ::
  "('r, 'a world \<times> bigvector) outcome \<Rightarrow> ('r, 'a world \<times> 'a vec_data) outcome" where
  "lift_big out =
     (case out of
        Undefined \<Rightarrow> Undefined
      | Throws x (w1, s1) \<Rightarrow> Throws x (w1, Big s1)
      | Returns r (w1, s1) \<Rightarrow> Returns r (w1, Big s1))"

text \<open>
  Members that work on a local \<^verbatim>\<open>bigvector tmp\<close>. An exception out of a call on
  \<open>tmp\<close> unwinds the frame, which destroys \<open>tmp\<close> and leaves \<^verbatim>\<open>vec_data\<close> as it
  was. \<^verbatim>\<open>vec_data = tmp\<close> copy constructs the new alternative from \<open>tmp\<close>, and
  \<open>tmp\<close> is destroyed when the member returns.
\<close>

definition on_tmp ::
  "'a vec_data \<Rightarrow> ('r, 'a world \<times> bigvector) outcome
     \<Rightarrow> ('r \<Rightarrow> 'a world \<Rightarrow> bigvector \<Rightarrow> ('q, 'a world \<times> 'a vec_data) outcome)
     \<Rightarrow> ('q, 'a world \<times> 'a vec_data) outcome" where
  "on_tmp v out f =
     (case out of
        Undefined \<Rightarrow> Undefined
      | Throws x (w1, t) \<Rightarrow> need (bv_dtor w1 t) (\<lambda>w2. Throws x (w2, v))
      | Returns r (w1, t) \<Rightarrow> f r w1 t)"

definition store_tmp :: "'a world \<Rightarrow> bigvector \<Rightarrow> (unit, 'a world \<times> 'a vec_data) outcome" where
  "store_tmp w t =
     need (bv_copy_ctor w t) (\<lambda>(w1, s).
     need (bv_dtor w1 t) (\<lambda>w2. Returns () (w2, Big s)))"

text \<open>\<^verbatim>\<open>size\<close> and \<^verbatim>\<open>capacity\<close>; \<open>None\<close> is undefined behaviour.\<close>

definition v_size :: "'a world \<Rightarrow> 'a vec_data \<Rightarrow> nat option" where
  "v_size w v = (case v of Monostate \<Rightarrow> Some 0 | Single a \<Rightarrow> Some 1 | Big s \<Rightarrow> bv_size w s)"

definition v_capacity :: "'a world \<Rightarrow> 'a vec_data \<Rightarrow> nat option" where
  "v_capacity w v =
     (case v of Monostate \<Rightarrow> Some 0 | Single a \<Rightarrow> Some 1 | Big s \<Rightarrow> bv_capacity w s)"

definition v_empty :: "'a world \<Rightarrow> 'a vec_data \<Rightarrow> bool option" where
  "v_empty w v = map_option (\<lambda>n. n = 0) (v_size w v)"

text \<open>The copy constructor and the destructor, both defaulted.\<close>

definition v_copy_ctor :: "'a world \<Rightarrow> 'a vec_data \<Rightarrow> ('a vec_data, 'a world) outcome" where
  "v_copy_ctor w other =
     (case other of
        Monostate \<Rightarrow> Returns Monostate w
      | Single a \<Rightarrow>
          (case copy_T w a of
             Undefined \<Rightarrow> Undefined
           | Throws x w1 \<Rightarrow> Throws x w1
           | Returns y w1 \<Rightarrow> Returns (Single y) w1)
      | Big s \<Rightarrow> need (bv_copy_ctor w s) (\<lambda>(w1, s1). Returns (Big s1) w1))"

definition v_dtor :: "'a world \<Rightarrow> 'a vec_data \<Rightarrow> 'a world option" where
  "v_dtor w v = (case v of Big s \<Rightarrow> bv_dtor w s | _ \<Rightarrow> Some w)"

text \<open>
  The copy assignment, defaulted: the assignment of the variant. Two buffers are
  assigned with \<^verbatim>\<open>bigvector::operator=\<close>; otherwise the old alternative is
  destroyed and the new one copy constructed. A throwing copy of the inline element
  leaves the target as it was.
\<close>

definition v_assign_op ::
  "'a world \<Rightarrow> 'a vec_data \<Rightarrow> 'a vec_data \<Rightarrow> (unit, 'a world \<times> 'a vec_data) outcome" where
  "v_assign_op w v other =
     (case other of
        Monostate \<Rightarrow> need (v_dtor w v) (\<lambda>w1. Returns () (w1, Monostate))
      | Single a \<Rightarrow>
          (case copy_T w a of
             Undefined \<Rightarrow> Undefined
           | Throws x w1 \<Rightarrow> Throws x (w1, v)
           | Returns y w1 \<Rightarrow> need (v_dtor w1 v) (\<lambda>w2. Returns () (w2, Single y)))
      | Big t \<Rightarrow>
          (case v of
             Big s \<Rightarrow> lift_big (bv_assign w s t)
           | _ \<Rightarrow> need (bv_copy_ctor w t) (\<lambda>(w1, s1). Returns () (w1, Big s1))))"

text \<open>
  The range constructor; the range is given as the list of its elements. The
  temporary \<^verbatim>\<open>bigvector(beg, en)\<close> is copied into the variant and destroyed.
\<close>

definition v_from_range :: "'a world \<Rightarrow> 'a list \<Rightarrow> ('a vec_data, 'a world) outcome" where
  "v_from_range w xs =
     (let len = length xs in
      if 1 < len then
        (case bv_from_range w xs of
           Undefined \<Rightarrow> Undefined
         | Throws x w1 \<Rightarrow> Throws x w1
         | Returns t w1 \<Rightarrow>
             need (bv_copy_ctor w1 t) (\<lambda>(w2, s).
             need (bv_dtor w2 t) (\<lambda>w3. Returns (Big s) w3)))
      else if len = 1 then
        (case copy_T w (hd xs) of
           Undefined \<Rightarrow> Undefined
         | Throws x w1 \<Rightarrow> Throws x w1
         | Returns y w1 \<Rightarrow> Returns (Single y) w1)
      else Returns Monostate w)"

text \<open>\<^verbatim>\<open>assign(beg, en)\<close> is \<^verbatim>\<open>*this = vector(beg, en)\<close>.\<close>

definition v_assign :: "'a world \<Rightarrow> 'a vec_data \<Rightarrow> 'a list \<Rightarrow> (unit, 'a world \<times> 'a vec_data) outcome" where
  "v_assign w v xs =
     (case v_from_range w xs of
        Undefined \<Rightarrow> Undefined
      | Throws x w1 \<Rightarrow> Throws x (w1, v)
      | Returns t w1 \<Rightarrow>
          (case v_assign_op w1 v t of
             Undefined \<Rightarrow> Undefined
           | Throws x (w2, v2) \<Rightarrow> need (v_dtor w2 t) (\<lambda>w3. Throws x (w3, v2))
           | Returns u (w2, v2) \<Rightarrow> need (v_dtor w2 t) (\<lambda>w3. Returns () (w3, v2))))"

text \<open>\<^verbatim>\<open>operator[]\<close>, \<^verbatim>\<open>front\<close> and \<^verbatim>\<open>back\<close>; the result is the element's address.\<close>

definition v_subscript :: "'a world \<Rightarrow> 'a vec_data \<Rightarrow> nat \<Rightarrow> (ptr, 'a world \<times> 'a vec_data) outcome" where
  "v_subscript w v index =
     (case v of
        Single a \<Rightarrow> Returns (Inline 0) (w, v)
      | Monostate \<Rightarrow> Throws Bad_variant_access (w, v)
      | Big s \<Rightarrow> lift_big (bv_subscript w s index))"

definition v_subscript_const ::
  "'a world \<Rightarrow> 'a vec_data \<Rightarrow> nat \<Rightarrow> (ptr, 'a world \<times> 'a vec_data) outcome" where
  "v_subscript_const w v index =
     (case v of
        Single a \<Rightarrow> Returns (Inline 0) (w, v)
      | Monostate \<Rightarrow> Throws Bad_variant_access (w, v)
      | Big s \<Rightarrow> lift_big (bv_subscript_const w s index))"

definition v_front :: "'a world \<Rightarrow> 'a vec_data \<Rightarrow> (ptr, 'a world \<times> 'a vec_data) outcome" where
  "v_front w v =
     (case v of
        Single a \<Rightarrow> Returns (Inline 0) (w, v)
      | Monostate \<Rightarrow> Throws Bad_variant_access (w, v)
      | Big s \<Rightarrow> lift_big (bv_front w s))"

definition v_back :: "'a world \<Rightarrow> 'a vec_data \<Rightarrow> (ptr, 'a world \<times> 'a vec_data) outcome" where
  "v_back w v =
     (case v of
        Single a \<Rightarrow> Returns (Inline 0) (w, v)
      | Monostate \<Rightarrow> Throws Bad_variant_access (w, v)
      | Big s \<Rightarrow> lift_big (bv_back w s))"

text \<open>Reading and writing through an element's address.\<close>

definition load :: "'a world \<Rightarrow> 'a vec_data \<Rightarrow> ptr \<Rightarrow> 'a option" where
  "load w v q =
     (case q of
        Nullp \<Rightarrow> None
      | Inline i \<Rightarrow> (case v of Single a \<Rightarrow> if i = 0 then Some a else None | _ \<Rightarrow> None)
      | Elem p i \<Rightarrow> rd_slot w p i)"

definition store_through ::
  "'a world \<Rightarrow> 'a vec_data \<Rightarrow> ptr \<Rightarrow> 'a \<Rightarrow> ('a world \<times> 'a vec_data) option" where
  "store_through w v q x =
     (case q of
        Nullp \<Rightarrow> None
      | Inline i \<Rightarrow> (case v of Single a \<Rightarrow> if i = 0 then Some (w, Single x) else None | _ \<Rightarrow> None)
      | Elem p i \<Rightarrow>
          (case rd_slot w p i of None \<Rightarrow> None
           | Some y \<Rightarrow> (case wr_slot w p i x of None \<Rightarrow> None | Some w1 \<Rightarrow> Some (w1, v))))"

text \<open>\<^verbatim>\<open>push_back\<close> and \<^verbatim>\<open>pop_back\<close>.\<close>

definition v_push_back :: "'a world \<Rightarrow> 'a vec_data \<Rightarrow> 'a \<Rightarrow> (unit, 'a world \<times> 'a vec_data) outcome" where
  "v_push_back w v elem =
     (case v of
        Monostate \<Rightarrow>
          (case copy_T w elem of
             Undefined \<Rightarrow> Undefined
           | Throws x w1 \<Rightarrow> Throws x (w1, v)
           | Returns y w1 \<Rightarrow> Returns () (w1, Single y))
      | Single a \<Rightarrow>
          on_tmp v (bv_push_back w None a) (\<lambda>u w1 t1.
          on_tmp v (bv_push_back w1 t1 elem) (\<lambda>u w2 t2. store_tmp w2 t2))
      | Big s \<Rightarrow> lift_big (bv_push_back w s elem))"

definition v_pop_back :: "'a world \<Rightarrow> 'a vec_data \<Rightarrow> (unit, 'a world \<times> 'a vec_data) outcome" where
  "v_pop_back w v =
     (case v of
        Monostate \<Rightarrow> Throws (Runtime_error ''attempt to pop_back in empty vector'') (w, v)
      | Single a \<Rightarrow> Returns () (w, Monostate)
      | Big s \<Rightarrow> lift_big (bv_pop_back w s))"

text \<open>\<^verbatim>\<open>data\<close>, \<^verbatim>\<open>begin\<close> and \<^verbatim>\<open>end\<close>, mutable and const.\<close>

definition v_data :: "'a world \<Rightarrow> 'a vec_data \<Rightarrow> (ptr, 'a world \<times> 'a vec_data) outcome" where
  "v_data w v =
     (case v of
        Monostate \<Rightarrow> Returns Nullp (w, v)
      | Single a \<Rightarrow> Returns (Inline 0) (w, v)
      | Big s \<Rightarrow> lift_big (bv_data w s))"

definition v_data_const :: "'a vec_data \<Rightarrow> ptr" where
  "v_data_const v =
     (case v of Monostate \<Rightarrow> Nullp | Single a \<Rightarrow> Inline 0 | Big s \<Rightarrow> bv_data_const s)"

definition v_begin :: "'a world \<Rightarrow> 'a vec_data \<Rightarrow> (ptr, 'a world \<times> 'a vec_data) outcome" where
  "v_begin w v = v_data w v"

definition v_end :: "'a world \<Rightarrow> 'a vec_data \<Rightarrow> (ptr, 'a world \<times> 'a vec_data) outcome" where
  "v_end w v =
     (case v_begin w v of
        Undefined \<Rightarrow> Undefined
      | Throws x st \<Rightarrow> Throws x st
      | Returns b (w1, v1) \<Rightarrow>
          need (v_size w1 v1) (\<lambda>n. need (ptr_add b n) (\<lambda>e. Returns e (w1, v1))))"

definition v_begin_const :: "'a vec_data \<Rightarrow> ptr" where
  "v_begin_const v = v_data_const v"

definition v_end_const :: "'a world \<Rightarrow> 'a vec_data \<Rightarrow> ptr option" where
  "v_end_const w v =
     (case v_size w v of None \<Rightarrow> None | Some n \<Rightarrow> ptr_add (v_begin_const v) n)"

text \<open>\<^verbatim>\<open>reserve\<close> and \<^verbatim>\<open>shrink_to_fit\<close>.\<close>

definition v_reserve :: "'a world \<Rightarrow> 'a vec_data \<Rightarrow> nat \<Rightarrow> (unit, 'a world \<times> 'a vec_data) outcome" where
  "v_reserve w v cap =
     (case v of
        Monostate \<Rightarrow>
          if cap = 0 then Returns () (w, v)
          else on_tmp v (bv_reserve w None cap) (\<lambda>u w1 t1. store_tmp w1 t1)
      | Single a \<Rightarrow>
          if cap < 1 then Returns () (w, v)
          else
            on_tmp v (bv_push_back w None a) (\<lambda>u w1 t1.
            on_tmp v (bv_reserve w1 t1 cap) (\<lambda>u w2 t2. store_tmp w2 t2))
      | Big s \<Rightarrow> lift_big (bv_reserve w s cap))"

definition v_shrink_to_fit :: "'a world \<Rightarrow> 'a vec_data \<Rightarrow> (unit, 'a world \<times> 'a vec_data) outcome" where
  "v_shrink_to_fit w v =
     (case v of
        Big s \<Rightarrow> lift_big (bv_shrink_to_fit w s)
      | _ \<Rightarrow> Returns () (w, v))"

text \<open>
  \<^verbatim>\<open>vector::resize_job\<close> and the two \<^verbatim>\<open>resize\<close>; the value of \<^verbatim>\<open>T()\<close> is the
  parameter \<open>dflt\<close>.
\<close>

definition v_resize_job ::
  "'a world \<Rightarrow> 'a vec_data \<Rightarrow> nat \<Rightarrow> 'a \<Rightarrow> (unit, 'a world \<times> 'a vec_data) outcome" where
  "v_resize_job w v sz elem =
     (case v of
        Monostate \<Rightarrow>
          if sz = 0 then Returns () (w, v)
          else if sz = 1 then
            (case copy_T w elem of
               Undefined \<Rightarrow> Undefined
             | Throws x w1 \<Rightarrow> Throws x (w1, v)
             | Returns y w1 \<Rightarrow> Returns () (w1, Single y))
          else on_tmp v (bv_resize w None sz elem) (\<lambda>u w1 t1. store_tmp w1 t1)
      | Single a \<Rightarrow>
          if sz = 0 then Returns () (w, Monostate)
          else if sz = 1 then Returns () (w, v)
          else
            on_tmp v (bv_push_back w None a) (\<lambda>u w1 t1.
            on_tmp v (bv_resize w1 t1 sz elem) (\<lambda>u w2 t2. store_tmp w2 t2))
      | Big s \<Rightarrow> lift_big (bv_resize w s sz elem))"

definition v_resize :: "'a world \<Rightarrow> 'a vec_data \<Rightarrow> nat \<Rightarrow> 'a \<Rightarrow> (unit, 'a world \<times> 'a vec_data) outcome" where
  "v_resize w v sz dflt = v_resize_job w v sz dflt"

definition v_resize_fill ::
  "'a world \<Rightarrow> 'a vec_data \<Rightarrow> nat \<Rightarrow> 'a \<Rightarrow> (unit, 'a world \<times> 'a vec_data) outcome" where
  "v_resize_fill w v sz elem = v_resize_job w v sz elem"

text \<open>
  \<^verbatim>\<open>vector::insert\<close>. It starts with the mutable \<^verbatim>\<open>begin()\<close>, which makes a heap
  backed vector the only owner of its block. For one inline element the local
  \<open>tmp\<close> is still alive when the closing \<^verbatim>\<open>begin()\<close> runs.
\<close>

definition v_insert ::
  "'a world \<Rightarrow> 'a vec_data \<Rightarrow> ptr \<Rightarrow> 'a \<Rightarrow> (ptr, 'a world \<times> 'a vec_data) outcome" where
  "v_insert w v pos val =
     (case v_begin w v of
        Undefined \<Rightarrow> Undefined
      | Throws x st \<Rightarrow> Throws x st
      | Returns b (w0, v0) \<Rightarrow>
          need (ptr_diff pos b) (\<lambda>index.
          case v0 of
            Monostate \<Rightarrow>
              (case copy_T w0 val of
                 Undefined \<Rightarrow> Undefined
               | Throws x w1 \<Rightarrow> Throws x (w1, v0)
               | Returns y w1 \<Rightarrow> Returns (Inline 0) (w1, Single y))
          | Single a \<Rightarrow>
              on_tmp v0 (bv_push_back w0 None a) (\<lambda>u w1 t1.
              need (ptr_add (bv_begin t1) index) (\<lambda>q.
              on_tmp v0 (bv_insert w1 t1 q val) (\<lambda>r w2 t2.
              need (bv_copy_ctor w2 t2) (\<lambda>(w3, s).
              case bv_data w3 s of
                Undefined \<Rightarrow> Undefined
              | Throws x (w4, s4) \<Rightarrow> need (bv_dtor w4 t2) (\<lambda>w5. Throws x (w5, Big s4))
              | Returns b1 (w4, s4) \<Rightarrow>
                  need (ptr_add b1 index) (\<lambda>res.
                  need (bv_dtor w4 t2) (\<lambda>w5. Returns res (w5, Big s4)))))))
          | Big s \<Rightarrow> lift_big (bv_insert w0 s pos val)))"

text \<open>\<^verbatim>\<open>vector::erase\<close>, for a range and for one position.\<close>

definition v_erase ::
  "'a world \<Rightarrow> 'a vec_data \<Rightarrow> ptr \<Rightarrow> ptr \<Rightarrow> (ptr, 'a world \<times> 'a vec_data) outcome" where
  "v_erase w v beg en =
     (if beg = en then
        (case v_begin w v of
           Undefined \<Rightarrow> Undefined
         | Throws x st \<Rightarrow> Throws x st
         | Returns b (w1, v1) \<Rightarrow>
             need (ptr_diff beg b) (\<lambda>d. need (ptr_add b d) (\<lambda>r. Returns r (w1, v1))))
      else
        (case v of
           Single a \<Rightarrow> Returns Nullp (w, Monostate)
         | Monostate \<Rightarrow> Throws Bad_variant_access (w, v)
         | Big s \<Rightarrow> lift_big (bv_erase w s beg en)))"

definition v_erase_at :: "'a world \<Rightarrow> 'a vec_data \<Rightarrow> ptr \<Rightarrow> (ptr, 'a world \<times> 'a vec_data) outcome" where
  "v_erase_at w v ind = need (ptr_add ind 1) (\<lambda>en. v_erase w v ind en)"

text \<open>
  \<^verbatim>\<open>vector::clear\<close>. Its body names \<^verbatim>\<open>bigvector::clear\<close>, so it can be instantiated
  only if that member can, whatever alternative the vector holds when it is called;
  \<open>None\<close>: the member has no instantiation, and no program calls it.
\<close>

definition v_clear ::
  "'a world \<Rightarrow> 'a vec_data \<Rightarrow> (unit, 'a world \<times> 'a vec_data) outcome option" where
  "v_clear w v =
     (case v of
        Big s \<Rightarrow> map_option lift_big (bv_clear w s)
      | _ \<Rightarrow> map_option (\<lambda>out. Returns () (w, Monostate)) (bv_clear w None))"

text \<open>
  The slots of the live range as the const \<^verbatim>\<open>begin()\<close> and \<^verbatim>\<open>end()\<close> delimit it,
  and \<^verbatim>\<open>operator==\<close>, \<^verbatim>\<open>operator!=\<close>; \<open>None\<close> is undefined behaviour.
\<close>

definition v_slots :: "'a world \<Rightarrow> 'a vec_data \<Rightarrow> 'a option list option" where
  "v_slots w v =
     (case v of Monostate \<Rightarrow> Some [] | Single a \<Rightarrow> Some [Some a] | Big s \<Rightarrow> bv_slots w s)"

definition v_eq :: "'a world \<Rightarrow> 'a vec_data \<Rightarrow> 'a vec_data \<Rightarrow> bool option" where
  "v_eq w a b =
     (case (a, b) of
        (Big s, Big t) \<Rightarrow> bv_eq w s t
      | _ \<Rightarrow>
          (case (v_slots w a, v_slots w b) of
             (Some xs, Some ys) \<Rightarrow>
               if length xs \<noteq> length ys then Some False else equal_slots xs ys
           | _ \<Rightarrow> None))"

definition v_neq :: "'a world \<Rightarrow> 'a vec_data \<Rightarrow> 'a vec_data \<Rightarrow> bool option" where
  "v_neq w a b = map_option Not (v_eq w a b)"

text \<open>
  What a caller observes of a vector through the const interface: the sequence of
  its elements, \<open>None\<close> when reading it is undefined behaviour.
\<close>

definition contents :: "'a world \<Rightarrow> 'a vec_data \<Rightarrow> 'a list option" where
  "contents w v = (case v_slots w v of None \<Rightarrow> None | Some xs \<Rightarrow> read_all xs)"

section \<open>Programs over the facade\<close>

text \<open>A world with nothing allocated in which no copy throws.\<close>

definition empty_world :: "'a world" where
  "empty_world = \<lparr>heap = [], script = []\<rparr>"

text \<open>A run of \<^verbatim>\<open>push_back\<close> calls, stopped by the first one that does not return.\<close>

fun push_back_all ::
  "'a world \<Rightarrow> 'a vec_data \<Rightarrow> 'a list \<Rightarrow> (unit, 'a world \<times> 'a vec_data) outcome" where
  "push_back_all w v [] = Returns () (w, v)"
| "push_back_all w v (x # xs) =
     (case v_push_back w v x of
        Undefined \<Rightarrow> Undefined
      | Throws e st \<Rightarrow> Throws e st
      | Returns u (w1, v1) \<Rightarrow> push_back_all w1 v1 xs)"

text \<open>
  The mutating members of the facade that can be instantiated, as data, so that a
  statement can range over all of them; \<open>dflt\<close> is the value of \<^verbatim>\<open>T()\<close>. A member's
  result (an iterator or a reference) is dropped. \<^verbatim>\<open>clear\<close> is not among them: it
  has no instantiation (\<open>v_clear\<close>).
\<close>

datatype 'a mutation =
    Push_back 'a | Pop_back | Insert ptr 'a | Erase ptr ptr | Erase_at ptr
  | Resize nat | Resize_fill nat 'a | Reserve nat | Shrink_to_fit
  | Subscript nat | Front | Back | Data

fun forget :: "('r, 's) outcome \<Rightarrow> (unit, 's) outcome" where
  "forget (Returns r s) = Returns () s"
| "forget (Throws e s) = Throws e s"
| "forget Undefined = Undefined"

definition mutate ::
  "'a \<Rightarrow> 'a world \<Rightarrow> 'a vec_data \<Rightarrow> 'a mutation \<Rightarrow> (unit, 'a world \<times> 'a vec_data) outcome" where
  "mutate dflt w v m =
     (case m of
        Push_back x \<Rightarrow> v_push_back w v x
      | Pop_back \<Rightarrow> v_pop_back w v
      | Insert pos x \<Rightarrow> forget (v_insert w v pos x)
      | Erase beg en \<Rightarrow> forget (v_erase w v beg en)
      | Erase_at q \<Rightarrow> forget (v_erase_at w v q)
      | Resize n \<Rightarrow> v_resize w v n dflt
      | Resize_fill n x \<Rightarrow> v_resize_fill w v n x
      | Reserve n \<Rightarrow> v_reserve w v n
      | Shrink_to_fit \<Rightarrow> v_shrink_to_fit w v
      | Subscript i \<Rightarrow> forget (v_subscript w v i)
      | Front \<Rightarrow> forget (v_front w v)
      | Back \<Rightarrow> forget (v_back w v)
      | Data \<Rightarrow> forget (v_data w v))"

text \<open>
  \<open>holds w s xs c\<close>: the buffer \<open>s\<close> is the only owner of a block of capacity \<open>c\<close>
  whose live elements are \<open>xs\<close> and whose other slots hold no object.
\<close>

definition holds :: "'a world \<Rightarrow> bigvector \<Rightarrow> 'a list \<Rightarrow> nat \<Rightarrow> bool" where
  "holds w s xs c =
     (case s of
        None \<Rightarrow> False
      | Some p \<Rightarrow>
          block_at w p =
            Some \<lparr>size_fld = Some (length xs), capacity_fld = Some c, ref_count = Some 1,
                   data = map Some xs @ replicate (c - length xs) None\<rparr>
          \<and> length xs \<le> c)"

text \<open>
  The capacity after \<open>n\<close> calls of \<^verbatim>\<open>push_back\<close> on an empty vector: it changes only
  when the vector is full, from \<open>0\<close> to \<open>1\<close> (the inline element) and by doubling
  afterwards.
\<close>

fun capacity_after :: "nat \<Rightarrow> nat" where
  "capacity_after 0 = 0"
| "capacity_after (Suc n) =
     (let c = capacity_after n in if n < c then c else if c = 0 then 1 else 2 * c)"

text \<open>
  The worlds of the scenarios below, over \<open>int\<close> elements. \<open>w_abc\<close>: a vector
  \<open>[1, 2, 3]\<close> built by three \<^verbatim>\<open>push_back\<close> calls owns block 1. \<open>w_shared\<close>: a copy
  shares that block. \<open>w_erased\<close>: the copy has erased its first element. \<open>w_ab\<close>,
  \<open>w_a\<close>, \<open>w_popped\<close>: a vector \<open>[1, 2]\<close> in block 0 loses both elements through
  \<^verbatim>\<open>pop_back\<close>. \<open>w_popped_shared\<close>: a copy shares the emptied block.
\<close>

definition w_abc :: "int world" where
  "w_abc = \<lparr>heap = [None,
       Some \<lparr>size_fld = Some 3, capacity_fld = Some 4, ref_count = Some 1,
             data = [Some 1, Some 2, Some 3, None]\<rparr>],
     script = []\<rparr>"

definition w_shared :: "int world" where
  "w_shared = \<lparr>heap = [None,
       Some \<lparr>size_fld = Some 3, capacity_fld = Some 4, ref_count = Some 2,
             data = [Some 1, Some 2, Some 3, None]\<rparr>],
     script = []\<rparr>"

definition w_erased :: "int world" where
  "w_erased = \<lparr>heap = [None,
       Some \<lparr>size_fld = Some 3, capacity_fld = Some 4, ref_count = Some 1,
             data = [Some 2, Some 3, Some 3, None]\<rparr>,
       Some \<lparr>size_fld = Some 2, capacity_fld = Some 4, ref_count = Some 1,
             data = [None, None, None, None]\<rparr>],
     script = []\<rparr>"

definition w_ab :: "int world" where
  "w_ab = \<lparr>heap = [
       Some \<lparr>size_fld = Some 2, capacity_fld = Some 2, ref_count = Some 1,
             data = [Some 1, Some 2]\<rparr>],
     script = []\<rparr>"

definition w_a :: "int world" where
  "w_a = \<lparr>heap = [
       Some \<lparr>size_fld = Some 1, capacity_fld = Some 2, ref_count = Some 1,
             data = [Some 1, None]\<rparr>],
     script = []\<rparr>"

definition w_popped :: "int world" where
  "w_popped = \<lparr>heap = [
       Some \<lparr>size_fld = Some 0, capacity_fld = Some 2, ref_count = Some 1,
             data = [None, None]\<rparr>],
     script = []\<rparr>"

definition w_popped_shared :: "int world" where
  "w_popped_shared = \<lparr>heap = [
       Some \<lparr>size_fld = Some 0, capacity_fld = Some 2, ref_count = Some 2,
             data = [None, None]\<rparr>],
     script = []\<rparr>"

lemmas scenario_defs =
  w_abc_def w_shared_def w_erased_def w_ab_def w_a_def w_popped_def w_popped_shared_def

lemmas heap_defs =
  block_at_def put_block_def rd_size_def rd_capacity_def rd_ref_count_def
  wr_size_def wr_capacity_def wr_ref_count_def rd_slot_def wr_slot_def
  destroy_at_def destroy_def make_storage_def operator_delete_def
  copy_T_def construct_at_def assign_at_def uninitialized_copy_def
  rotate_last_def sz64_def dec64_def sub64_def

lemmas bigvector_defs =
  bv_begin_def bv_end_def bv_size_def bv_capacity_def release_old_def
  bv_push_back_def unique_copy_def bv_copy_ctor_def bv_from_range_def
  bv_assign_def bv_dtor_def bv_subscript_def bv_subscript_const_def
  bv_slots_def bv_eq_def bv_front_def bv_back_def bv_front_const_def
  bv_back_const_def bv_pop_back_def bv_data_def bv_data_const_def
  bv_reserve_def bv_shrink_to_fit_def shorten_def bv_resize_job_def
  bv_resize_def bv_clear_def bv_insert_def bv_erase_def

lemmas vector_defs =
  lift_big_def on_tmp_def store_tmp_def v_size_def v_capacity_def v_empty_def
  v_copy_ctor_def v_dtor_def v_assign_op_def v_from_range_def v_assign_def
  v_subscript_def v_subscript_const_def v_front_def v_back_def load_def
  store_through_def v_push_back_def v_pop_back_def v_data_def v_data_const_def
  v_begin_def v_end_def v_begin_const_def v_end_const_def v_reserve_def
  v_shrink_to_fit_def v_resize_job_def v_resize_def v_resize_fill_def
  v_insert_def v_erase_def v_erase_at_def v_clear_def v_slots_def v_eq_def
  v_neq_def contents_def empty_world_def

section \<open>Evaluation rules\<close>

text \<open>The recursive functions, unfolded once for a count that is not zero (a numeral, say).\<close>

lemma destroy_n_step:
  "0 < n \<Longrightarrow> destroy_n w p i n =
     (case destroy_at w p i of None \<Rightarrow> None | Some w1 \<Rightarrow> destroy_n w1 p (Suc i) (n - 1))"
  by (cases n) (simp_all cong: option.case_cong outcome.case_cong if_cong)

lemma uninitialized_copy_n_step:
  "0 < n \<Longrightarrow> uninitialized_copy_n w src i dst j k n =
     need (rd_slot w src (i + k)) (\<lambda>x.
       case construct_at w dst (j + k) x of
         Undefined \<Rightarrow> Undefined
       | Throws e w1 \<Rightarrow> need (destroy_n w1 dst j k) (\<lambda>w2. Throws e w2)
       | Returns u w1 \<Rightarrow> uninitialized_copy_n w1 src i dst j (Suc k) (n - 1))"
  by (cases n) (simp_all cong: option.case_cong outcome.case_cong if_cong)

lemma slots_n_step:
  "0 < n \<Longrightarrow> slots_n w p i n =
     (case block_at w p of None \<Rightarrow> None
      | Some b \<Rightarrow> if i < length (data b)
          then (case slots_n w p (Suc i) (n - 1) of None \<Rightarrow> None
                | Some r \<Rightarrow> Some (data b ! i # r))
          else None)"
  by (cases n) (simp_all cong: option.case_cong outcome.case_cong if_cong)

lemma fill_n_step:
  "0 < n \<Longrightarrow> fill_n w p i n x =
     (case assign_at w p i x of
        Undefined \<Rightarrow> Undefined
      | Throws e w1 \<Rightarrow> Throws e w1
      | Returns u w1 \<Rightarrow> fill_n w1 p (Suc i) (n - 1) x)"
  by (cases n) (simp_all cong: option.case_cong outcome.case_cong if_cong)

lemma move_n_step:
  "0 < n \<Longrightarrow> move_n w p i j n =
     (case rd_slot w p i of None \<Rightarrow> None
      | Some x \<Rightarrow> (case wr_slot w p j x of None \<Rightarrow> None
          | Some w1 \<Rightarrow> move_n w1 p (Suc i) (Suc j) (n - 1)))"
  by (cases n) (simp_all cong: option.case_cong outcome.case_cong if_cong)

lemma replicate_step: "0 < n \<Longrightarrow> replicate n x = x # replicate (n - 1) x"
  by (cases n) (simp_all cong: option.case_cong outcome.case_cong if_cong)

lemmas loop_steps =
  replicate_step destroy_n_step uninitialized_copy_n_step slots_n_step fill_n_step move_n_step

lemmas eval_defs = loop_steps heap_defs bigvector_defs vector_defs scenario_defs

section \<open>Facts about the heap\<close>

lemma block_at_Some_lt: "block_at w p = Some b \<Longrightarrow> p < length (heap w)"
  by (simp add: block_at_def split: if_splits)

lemma block_at_put_block:
  "block_at (put_block w p x) q = (if q = p \<and> p < length (heap w) then x else block_at w q)"
  by (simp add: block_at_def put_block_def)

lemma put_block_put_block: "put_block (put_block w p x) p y = put_block w p y"
  by (simp add: put_block_def)

lemma heap_put_block: "length (heap (put_block w p x)) = length (heap w)"
  by (simp add: put_block_def)

lemma script_put_block: "script (put_block w p x) = script w"
  by (simp add: put_block_def)

lemma put_block_same: "block_at w p = Some b \<Longrightarrow> put_block w p (Some b) = w"
proof -
  assume a: "block_at w p = Some b"
  then have "heap w ! p = Some b" by (simp add: block_at_def split: if_splits)
  then have "(heap w)[p := Some b] = heap w" by (metis list_update_id)
  then show ?thesis by (simp add: put_block_def)
qed

lemma destroy_n_live:
  "block_at w p = Some b \<Longrightarrow> i + n \<le> length (data b) \<Longrightarrow>
   destroy_n w p i n =
     Some (put_block w p
       (Some (b\<lparr>data := take i (data b) @ replicate n None @ drop (i + n) (data b)\<rparr>)))"
proof (induction n arbitrary: w b i)
  case 0
  then show ?case
    by (simp add: put_block_same)
next
  case (Suc n)
  let ?b1 = "b\<lparr>data := (data b)[i := None]\<rparr>"
  let ?w1 = "put_block w p (Some ?b1)"
  have lt: "p < length (heap w)" using Suc.prems(1) by (rule block_at_Some_lt)
  have i: "i < length (data b)" using Suc.prems(2) by simp
  have d: "destroy_at w p i = Some ?w1"
    using Suc.prems(1) i by (simp add: destroy_at_def)
  have b1: "block_at ?w1 p = Some ?b1" using lt by (simp add: block_at_put_block)
  have "destroy_n ?w1 p (Suc i) n =
     Some (put_block ?w1 p (Some (?b1\<lparr>data := take (Suc i) (data ?b1) @ replicate n None
        @ drop (Suc i + n) (data ?b1)\<rparr>)))"
    using Suc.prems(2) by (intro Suc.IH[OF b1]) simp
  moreover have "take (Suc i) ((data b)[i := None]) = take i (data b) @ [None]"
    using i by (simp add: take_Suc_conv_app_nth)
  ultimately show ?case
    using d by (simp add: put_block_put_block replicate_app_Cons_same)
qed

lemma block_at_make_storage:
  "block_at (snd (make_storage w c)) q =
     (if q = length (heap w)
      then Some \<lparr>size_fld = None, capacity_fld = None, ref_count = None,
                  data = replicate c None\<rparr>
      else block_at w q)"
  by (simp add: make_storage_def block_at_def nth_append)

lemma fst_make_storage: "fst (make_storage w c) = length (heap w)"
  by (simp add: make_storage_def)

lemma heap_make_storage: "length (heap (snd (make_storage w c))) = Suc (length (heap w))"
  by (simp add: make_storage_def)

lemma script_make_storage: "script (snd (make_storage w c)) = script w"
  by (simp add: make_storage_def)


section \<open>Growth by \<^verbatim>\<open>push_back\<close> when no copy throws\<close>

lemma copy_T_quiet: "script w = [] \<Longrightarrow> copy_T w x = Returns x w"
  by (simp add: copy_T_def)

lemma construct_at_quiet:
  "script w = [] \<Longrightarrow> block_at w p = Some b \<Longrightarrow> i < length (data b) \<Longrightarrow>
   construct_at w p i x =
     Returns () (put_block w p (Some (b\<lparr>data := (data b)[i := Some x]\<rparr>)))"
  by (simp add: construct_at_def copy_T_quiet wr_slot_def)

lemma uninitialized_copy_n_quiet:
  "src \<noteq> dst \<Longrightarrow> block_at w src = Some bs \<Longrightarrow> block_at w dst = Some bd \<Longrightarrow>
   script w = [] \<Longrightarrow> take (length ys) (drop (i + k) (data bs)) = map Some ys \<Longrightarrow>
   i + k + length ys \<le> length (data bs) \<Longrightarrow>
   j + k + length ys \<le> length (data bd) \<Longrightarrow>
   uninitialized_copy_n w src i dst j k (length ys) =
     Returns () (put_block w dst
       (Some (bd\<lparr>data := take (j + k) (data bd) @ map Some ys
                          @ drop (j + k + length ys) (data bd)\<rparr>)))"
proof (induction ys arbitrary: w bd k)
  case Nil
  then show ?case by (simp add: put_block_same)
next
  case (Cons y ys)
  let ?bd1 = "bd\<lparr>data := (data bd)[j + k := Some y]\<rparr>"
  let ?w1 = "put_block w dst (Some ?bd1)"
  have ltd: "dst < length (heap w)" using Cons.prems(3) by (rule block_at_Some_lt)
  have ik: "i + k < length (data bs)" using Cons.prems(6) by simp
  have jk: "j + k < length (data bd)" using Cons.prems(7) by simp
  have "drop (i + k) (data bs) = data bs ! (i + k) # drop (Suc (i + k)) (data bs)"
    using ik by (simp add: Cons_nth_drop_Suc)
  with Cons.prems(5) have hd: "data bs ! (i + k) = Some y"
    and tl: "take (length ys) (drop (i + Suc k) (data bs)) = map Some ys"
    by simp_all
  have rd: "rd_slot w src (i + k) = Some y"
    using Cons.prems(2) ik hd by (simp add: rd_slot_def)
  have ca: "construct_at w dst (j + k) y = Returns () ?w1"
    using Cons.prems(3,4) jk by (simp add: construct_at_quiet)
  have s1: "block_at ?w1 src = Some bs" using Cons.prems(1,2) by (simp add: block_at_put_block)
  have d1: "block_at ?w1 dst = Some ?bd1" using ltd by (simp add: block_at_put_block)
  have "uninitialized_copy_n ?w1 src i dst j (Suc k) (length ys) =
     Returns () (put_block ?w1 dst
       (Some (?bd1\<lparr>data := take (j + Suc k) (data ?bd1) @ map Some ys
                          @ drop (j + Suc k + length ys) (data ?bd1)\<rparr>)))"
    using Cons.prems(1,4,6,7) tl
    by (intro Cons.IH[OF _ s1 d1]) (simp_all add: script_put_block)
  moreover have "take (j + Suc k) ((data bd)[j + k := Some y]) = take (j + k) (data bd) @ [Some y]"
    using jk by (simp add: take_Suc_conv_app_nth)
  ultimately show ?case using rd ca
    by (simp add: put_block_put_block)
qed

lemma sz64_small: "n < 2 ^ 64 \<Longrightarrow> sz64 n = n"
  by (simp add: sz64_def)

lemma bv_push_back_in_place:
  assumes h: "holds w (Some p) xs c" and lt: "length xs < c" and q: "script w = []"
    and c: "c < 2 ^ 64"
  shows "\<exists>w'. bv_push_back w (Some p) x = Returns () (w', Some p)
           \<and> holds w' (Some p) (xs @ [x]) c \<and> script w' = []"
proof -
  let ?b = "\<lparr>size_fld = Some (length xs), capacity_fld = Some c, ref_count = Some 1,
             data = map Some xs @ replicate (c - length xs) None\<rparr>"
  have b: "block_at w p = Some ?b" using h by (simp add: holds_def)
  have pl: "p < length (heap w)" using b by (rule block_at_Some_lt)
  have ca: "construct_at w p (length xs) x =
      Returns () (put_block w p (Some (?b\<lparr>data := (data ?b)[length xs := Some x]\<rparr>)))"
    using lt by (intro construct_at_quiet[OF q b]) simp_all
  have upd: "(map Some xs @ replicate (c - length xs) None)[length xs := Some x]
      = map Some xs @ Some x # replicate (c - Suc (length xs)) None"
  proof -
    have "(map Some xs @ replicate (c - length xs) None)[length xs := Some x]
        = map Some xs @ (replicate (c - length xs) None)[0 := Some x]"
      by (simp add: list_update_append)
    also have "(replicate (c - length xs) None)[0 := Some x]
        = Some x # replicate (c - Suc (length xs)) None"
      using lt by (cases "c - length xs") simp_all
    finally show ?thesis .
  qed
  have s: "sz64 (length xs + 1) = length xs + 1" using lt c by (intro sz64_small) simp
  show ?thesis using b lt q pl ca upd s
    by (simp add: bv_push_back_def bv_size_def bv_capacity_def rd_size_def rd_capacity_def
        rd_ref_count_def wr_size_def block_at_put_block put_block_put_block script_put_block
        holds_def)
qed

lemma bv_push_back_grow:
  assumes h: "holds w (Some p) xs c" and full: "c = length xs" and pos: "0 < c"
    and q: "script w = []" and c: "c * 2 < 2 ^ 64"
  shows "\<exists>w'. bv_push_back w (Some p) x = Returns () (w', Some (length (heap w)))
           \<and> holds w' (Some (length (heap w))) (xs @ [x]) (2 * c) \<and> script w' = []"
proof -
  let ?b = "\<lparr>size_fld = Some c, capacity_fld = Some c, ref_count = Some (1::nat),
             data = map Some xs\<rparr>"
  let ?raw = "\<lparr>size_fld = None, capacity_fld = None, ref_count = None,
               data = replicate (c * 2) (None :: 'a option)\<rparr>"
  let ?t = "length (heap w)"
  let ?w1 = "snd (make_storage w (c * 2))"
  have b: "block_at w p = Some ?b" using h full by (simp add: holds_def)
  have pl: "p < ?t" using b by (rule block_at_Some_lt)
  have ne: "p \<noteq> ?t" "?t \<noteq> p" using pl by simp_all
  have b1: "block_at ?w1 p = Some ?b" using b ne by (simp add: block_at_make_storage)
  have t1: "block_at ?w1 ?t = Some ?raw" by (simp add: block_at_make_storage)
  have q1: "script ?w1 = []" using q by (simp add: script_make_storage)
  let ?bt2 = "?raw\<lparr>data := take (0 + 0) (data ?raw) @ map Some xs
                @ drop (0 + 0 + length xs) (data ?raw)\<rparr>"
  let ?w2 = "put_block ?w1 ?t (Some ?bt2)"
  have cp: "uninitialized_copy_n ?w1 p 0 ?t 0 0 (length xs) = Returns () ?w2"
    using full by (intro uninitialized_copy_n_quiet[OF ne(1) b1 t1 q1]) simp_all
  have d2: "data ?bt2 = map Some xs @ replicate c None"
    using full by simp
  have t2: "block_at ?w2 ?t = Some ?bt2"
    by (simp add: block_at_put_block heap_make_storage)
  have q2: "script ?w2 = []" using q1 by (simp add: script_put_block)
  let ?bt3 = "?bt2\<lparr>data := (data ?bt2)[length xs := Some x]\<rparr>"
  let ?w3 = "put_block ?w2 ?t (Some ?bt3)"
  have ca: "construct_at ?w2 ?t (length xs) x = Returns () ?w3"
    using full pos by (intro construct_at_quiet[OF q2 t2]) simp_all
  have b3: "block_at ?w3 p = Some ?b"
    using b1 ne by (simp add: block_at_put_block)
  have d3: "data ?bt3 = map Some (xs @ [x]) @ replicate (2 * c - Suc c) None"
  proof -
    have "(map Some xs @ replicate c None)[length xs := Some x]
        = map Some xs @ (replicate c None)[0 := Some x]"
      by (simp add: list_update_append)
    also have "(replicate c None)[0 := Some x] = Some x # replicate (c - 1) None"
      using pos by (cases c) simp_all
    finally show ?thesis using full pos by (simp add: mult_2_right)
  qed
  let ?w4 = "put_block ?w3 ?t (Some (?bt3\<lparr>size_fld := Some (Suc c)\<rparr>))"
  have b4: "block_at ?w4 p = Some ?b"
    using b3 ne by (simp add: block_at_put_block)
  have ds: "destroy_n ?w4 p 0 c = Some (put_block ?w4 p
       (Some (?b\<lparr>data := take 0 (data ?b) @ replicate c None @ drop (0 + c) (data ?b)\<rparr>)))"
    using full by (intro destroy_n_live[OF b4]) simp
  have s: "sz64 (c + 1) = c + 1" "sz64 (c * 2) = c * 2" using c by (simp_all add: sz64_small)
  have rel: "release_old ?w4 p = Some (put_block ?w4 p None)"
    using b4 ds pl pos
    by (simp add: release_old_def rd_ref_count_def bv_end_def bv_begin_def rd_size_def
        destroy_def operator_delete_def block_at_put_block heap_put_block heap_make_storage
        put_block_put_block)
  have cpy: "uninitialized_copy ?w1 (Elem p 0) (Elem p c) (Elem ?t 0) = Returns () ?w2"
    using cp full pos by (simp add: uninitialized_copy_def)
  have run: "bv_push_back w (Some p) x =
      Returns () (put_block (put_block (put_block ?w4 p None) ?t
          (Some (?bt3\<lparr>size_fld := Some (Suc c), capacity_fld := Some (c * 2)\<rparr>))) ?t
          (Some (?bt3\<lparr>size_fld := Some (Suc c), capacity_fld := Some (c * 2),
                        ref_count := Some 1\<rparr>)), Some ?t)"
    using b b1 b3 pos full s cpy ca rel ne pl
    by (simp add: bv_push_back_def bv_size_def bv_capacity_def rd_size_def rd_capacity_def
        Let_def split_def fst_make_storage bv_end_def bv_begin_def wr_size_def
        wr_capacity_def wr_ref_count_def block_at_put_block heap_put_block
        heap_make_storage put_block_put_block)
  have le: "Suc 0 \<le> length xs" using pos full by (cases xs) simp_all
  show ?thesis
    unfolding run using d3 q ne full le
    by (simp add: holds_def block_at_put_block heap_put_block heap_make_storage
        script_put_block script_make_storage)
qed

lemma bv_push_back_first:
  assumes q: "script w = []"
  shows "\<exists>w'. bv_push_back w None x = Returns () (w', Some (length (heap w)))
           \<and> holds w' (Some (length (heap w))) [x] 2 \<and> script w' = []"
  using q
  by (simp add: bv_push_back_def bv_size_def bv_capacity_def Let_def split_def
      fst_make_storage bv_end_def bv_begin_def uninitialized_copy_def construct_at_def
      copy_T_quiet script_make_storage wr_slot_def wr_size_def wr_capacity_def
      wr_ref_count_def block_at_make_storage block_at_put_block heap_put_block
      heap_make_storage put_block_put_block script_put_block holds_def
      numeral_2_eq_2)

lemma store_tmp_sole:
  assumes h: "holds w s xs c"
  shows "store_tmp w s = Returns () (w, Big s)"
proof -
  from h obtain p where s: "s = Some p" by (cases s) (simp_all add: holds_def)
  let ?b = "\<lparr>size_fld = Some (length xs), capacity_fld = Some c, ref_count = Some 1,
             data = map Some xs @ replicate (c - length xs) None\<rparr>"
  have b: "block_at w p = Some ?b" using h s by (simp add: holds_def)
  have pl: "p < length (heap w)" using b by (rule block_at_Some_lt)
  have "put_block w p (Some ?b) = w" using b by (rule put_block_same)
  then show ?thesis using b s pl
    by (simp add: store_tmp_def bv_copy_ctor_def bv_dtor_def rd_ref_count_def
        wr_ref_count_def block_at_put_block put_block_put_block sz64_def)
qed

lemma v_push_back_promote:
  assumes q: "script w = []"
  shows "\<exists>w' s'. v_push_back w (Single a) x = Returns () (w', Big s')
           \<and> holds w' s' [a, x] 2 \<and> script w' = []"
proof -
  from bv_push_back_first[OF q, of a] obtain w1 where
    1: "bv_push_back w None a = Returns () (w1, Some (length (heap w)))"
    and h1: "holds w1 (Some (length (heap w))) [a] 2" and q1: "script w1 = []"
    by blast
  from bv_push_back_in_place[OF h1 _ q1, of x] obtain w2 where
    2: "bv_push_back w1 (Some (length (heap w))) x = Returns () (w2, Some (length (heap w)))"
    and h2: "holds w2 (Some (length (heap w))) ([a] @ [x]) 2" and q2: "script w2 = []"
    by auto
  from store_tmp_sole[OF h2] 1 2 h2 q2 show ?thesis
    by (simp add: v_push_back_def on_tmp_def)
qed

lemma capacity_after_bounds:
  "0 < n \<Longrightarrow> n \<le> capacity_after n \<and> capacity_after n < 2 * n"
proof (induction n)
  case 0
  then show ?case by simp
next
  case (Suc n)
  show ?case
  proof (cases "n = 0")
    case True
    then show ?thesis by simp
  next
    case False
    with Suc.IH have "n \<le> capacity_after n" "capacity_after n < 2 * n" by simp_all
    then show ?thesis by (auto simp: Let_def)
  qed
qed

lemma capacity_after_power_of_two: "0 < n \<Longrightarrow> \<exists>k. capacity_after n = 2 ^ k"
proof (induction n)
  case 0
  then show ?case by simp
next
  case (Suc n)
  show ?case
  proof (cases "n = 0")
    case True
    then have "capacity_after (Suc n) = 2 ^ 0" by simp
    then show ?thesis by blast
  next
    case False
    with Suc.IH obtain k where k: "capacity_after n = 2 ^ k" by auto
    then have "capacity_after (Suc n) = 2 ^ k \<or> capacity_after (Suc n) = 2 ^ Suc k"
      by (simp add: Let_def)
    then show ?thesis by blast
  qed
qed

lemma v_push_back_big:
  assumes h: "holds w s ys (capacity_after (length ys))" and q: "script w = []"
    and n: "0 < length ys" "length ys < 2 ^ 63"
  shows "\<exists>w' s'. v_push_back w (Big s) x = Returns () (w', Big s')
           \<and> holds w' s' (ys @ [x]) (capacity_after (Suc (length ys))) \<and> script w' = []"
proof -
  let ?c = "capacity_after (length ys)"
  from h obtain p where s: "s = Some p" by (cases s) (simp_all add: holds_def)
  from capacity_after_bounds[OF n(1)] have cb: "length ys \<le> ?c" "?c < 2 * length ys"
    by simp_all
  have c64: "?c < 2 ^ 64" using cb n(2) by simp
  show ?thesis
  proof (cases "length ys < ?c")
    case True
    from bv_push_back_in_place[OF h[unfolded s] True q c64, of x] s True show ?thesis
      by (auto simp: v_push_back_def lift_big_def Let_def)
  next
    case False
    then have full: "?c = length ys" using cb by simp
    have pos: "0 < ?c" using full n by simp
    have c2: "?c * 2 < 2 ^ 64" using full n(2) by simp
    from bv_push_back_grow[OF h[unfolded s] full pos q c2, of x] s False pos show ?thesis
      by (auto simp: v_push_back_def lift_big_def Let_def)
  qed
qed

lemma push_back_all_big:
  "holds w s ys (capacity_after (length ys)) \<Longrightarrow> script w = [] \<Longrightarrow> 0 < length ys \<Longrightarrow>
   length ys + length xs \<le> 2 ^ 63 \<Longrightarrow>
   \<exists>w' s'. push_back_all w (Big s) xs = Returns () (w', Big s')
      \<and> holds w' s' (ys @ xs) (capacity_after (length ys + length xs)) \<and> script w' = []"
proof (induction xs arbitrary: w s ys)
  case Nil
  then show ?case by simp
next
  case (Cons x xs)
  have lt: "length ys < 2 ^ 63" using Cons.prems(4) by simp
  from v_push_back_big[OF Cons.prems(1,2,3) lt, of x] obtain w1 s1 where
    1: "v_push_back w (Big s) x = Returns () (w1, Big s1)"
    and h1: "holds w1 s1 (ys @ [x]) (capacity_after (Suc (length ys)))"
    and q1: "script w1 = []"
    by blast
  have "\<exists>w' s'. push_back_all w1 (Big s1) xs = Returns () (w', Big s')
      \<and> holds w' s' ((ys @ [x]) @ xs) (capacity_after (length (ys @ [x]) + length xs))
      \<and> script w' = []"
    using h1 q1 Cons.prems(4) by (intro Cons.IH) simp_all
  then show ?case using 1 by simp
qed

lemma slots_n_live:
  "block_at w p = Some b \<Longrightarrow> i + n \<le> length (data b) \<Longrightarrow>
   slots_n w p i n = Some (take n (drop i (data b)))"
proof (induction n arbitrary: i)
  case 0
  then show ?case by simp
next
  case (Suc n)
  then have "slots_n w p (Suc i) n = Some (take n (drop (Suc i) (data b)))"
    by (intro Suc.IH) simp_all
  moreover have "drop i (data b) = data b ! i # drop (Suc i) (data b)"
    using Suc.prems(2) by (simp add: Cons_nth_drop_Suc)
  ultimately show ?case using Suc.prems by simp
qed

lemma read_all_map_Some: "read_all (map Some xs) = Some xs"
  by (induction xs) simp_all

lemma holds_observed:
  assumes "holds w s xs c"
  shows "v_size w (Big s) = Some (length xs)" "v_capacity w (Big s) = Some c"
    "contents w (Big s) = Some xs"
proof -
  from assms obtain p where s: "s = Some p" by (cases s) (simp_all add: holds_def)
  let ?b = "\<lparr>size_fld = Some (length xs), capacity_fld = Some c, ref_count = Some 1,
             data = map Some xs @ replicate (c - length xs) None\<rparr>"
  have b: "block_at w p = Some ?b" and le: "length xs \<le> c"
    using assms s by (simp_all add: holds_def)
  show "v_size w (Big s) = Some (length xs)" "v_capacity w (Big s) = Some c"
    using b s by (simp_all add: v_size_def v_capacity_def bv_size_def bv_capacity_def
        rd_size_def rd_capacity_def)
  have "slots_n w p 0 (length xs) = Some (take (length xs) (drop 0 (data ?b)))"
    using le by (intro slots_n_live[OF b]) simp
  then show "contents w (Big s) = Some xs"
    using b s by (simp add: contents_def v_slots_def bv_slots_def rd_size_def
        read_all_map_Some)
qed

section \<open>Heap backed vectors stay heap backed\<close>

lemma lift_big_cases:
  "lift_big out = Returns r (w', v') \<Longrightarrow> index_of v' = 2"
  "lift_big out = Throws e (w', v') \<Longrightarrow> index_of v' = 2"
  by (auto simp: lift_big_def split: outcome.splits prod.splits)

lemma forget_cases:
  "forget out = Returns u st \<Longrightarrow> \<exists>r. out = Returns r st"
  "forget out = Throws e st \<Longrightarrow> out = Throws e st"
  by (cases out; simp)+

lemma v_begin_big:
  "v_begin w (Big s) = Returns r (w', v') \<Longrightarrow> index_of v' = 2"
  "v_begin w (Big s) = Throws e (w', v') \<Longrightarrow> index_of v' = 2"
  by (auto simp: v_begin_def v_data_def dest: lift_big_cases)

lemma need_cases:
  "need m f = Returns r st \<Longrightarrow> \<exists>x. m = Some x \<and> f x = Returns r st"
  "need m f = Throws e st \<Longrightarrow> \<exists>x. m = Some x \<and> f x = Throws e st"
  by (cases m; simp)+

lemma v_insert_Big:
  "v_insert w (Big s) pos x =
     (case bv_data w s of
        Undefined \<Rightarrow> Undefined
      | Throws e (w1, s1) \<Rightarrow> Throws e (w1, Big s1)
      | Returns b (w0, s0) \<Rightarrow>
          need (ptr_diff pos b) (\<lambda>index. lift_big (bv_insert w0 s0 pos x)))"
  by (simp add: v_insert_def v_begin_def v_data_def lift_big_def
        split: outcome.splits prod.splits)

lemma v_erase_Big:
  "v_erase w (Big s) beg en =
     (if beg = en then
        (case bv_data w s of
           Undefined \<Rightarrow> Undefined
         | Throws e (w1, s1) \<Rightarrow> Throws e (w1, Big s1)
         | Returns b (w1, s1) \<Rightarrow>
             need (ptr_diff beg b) (\<lambda>d. need (ptr_add b d) (\<lambda>r. Returns r (w1, Big s1))))
      else lift_big (bv_erase w s beg en))"
  by (simp add: v_erase_def v_begin_def v_data_def lift_big_def
        split: outcome.splits prod.splits)

lemma v_insert_big:
  "v_insert w (Big s) pos x = Returns r (w', v') \<Longrightarrow> index_of v' = 2"
  "v_insert w (Big s) pos x = Throws e (w', v') \<Longrightarrow> index_of v' = 2"
  by (auto simp: v_insert_Big split: outcome.splits prod.splits
        dest!: need_cases dest: lift_big_cases)

lemma v_erase_big:
  "v_erase w (Big s) beg en = Returns r (w', v') \<Longrightarrow> index_of v' = 2"
  "v_erase w (Big s) beg en = Throws e (w', v') \<Longrightarrow> index_of v' = 2"
  by (auto simp: v_erase_Big split: outcome.splits prod.splits if_splits
        dest!: need_cases dest: lift_big_cases)

lemma v_erase_at_big:
  "v_erase_at w (Big s) q = Returns r (w', v') \<Longrightarrow> index_of v' = 2"
  "v_erase_at w (Big s) q = Throws e (w', v') \<Longrightarrow> index_of v' = 2"
  by (auto simp: v_erase_at_def dest!: need_cases dest: v_erase_big)

section \<open>How the scenario worlds come about\<close>

lemma abc_built:
  "push_back_all empty_world Monostate [1, 2, 3] = Returns () (w_abc, Big (Some 1))"
  by (simp add: eval_defs)

lemma abc_copied: "v_copy_ctor w_abc (Big (Some 1)) = Returns (Big (Some 1)) w_shared"
  by (simp add: eval_defs)

lemma ab_built: "push_back_all empty_world Monostate [1, 2] = Returns () (w_ab, Big (Some 0))"
  by (simp add: eval_defs)

lemma ab_popped:
  "v_pop_back w_ab (Big (Some 0)) = Returns () (w_a, Big (Some 0))"
  "v_pop_back w_a (Big (Some 0)) = Returns () (w_popped, Big (Some 0))"
  by (simp_all add: eval_defs)

lemma popped_copied:
  "v_copy_ctor w_popped (Big (Some 0)) = Returns (Big (Some 0)) w_popped_shared"
  by (simp add: eval_defs)

section \<open>The claims\<close>

text \<open>
  C1 (copy on write isolation): a copy \<open>b\<close> of a vector \<open>a\<close> compares equal to \<open>a\<close>,
  and no later mutation of \<open>b\<close> changes the sequence that \<open>a\<close> shows. The code breaks
  it in \<^verbatim>\<open>erase\<close>: with \<open>a = [1, 2, 3]\<close> in \<open>w_abc\<close> and its copy \<open>b\<close> in \<open>w_shared\<close>
  (both \<open>Big (Some 1)\<close>, equal, showing \<open>[1, 2, 3]\<close>), erasing the first element of
  \<open>b\<close> through const iterators returns normally, and afterwards \<open>a\<close> shows
  \<open>[2, 3, 3]\<close>: the tail was copied into the shared block instead of the new one,
  whose two live slots hold no object. Copy assignment to a heap backed vector that
  holds no block (as left by \<^verbatim>\<open>shrink_to_fit\<close> of a co-owner) dereferences the null
  pointer in \<^verbatim>\<open>bigvector::operator=\<close>.
\<close>

theorem erase_on_copy_changes_original:
  "v_eq w_shared (Big (Some 1)) (Big (Some 1)) = Some True
   \<and> contents w_shared (Big (Some 1)) = Some [1, 2, 3]
   \<and> v_begin_const (Big (Some 1)) = Elem 1 0
   \<and> v_erase w_shared (Big (Some 1)) (Elem 1 0) (Elem 1 1)
       = Returns (Elem 2 0) (w_erased, Big (Some 2))
   \<and> contents w_erased (Big (Some 1)) = Some [2, 3, 3]
   \<and> v_slots w_erased (Big (Some 2)) = Some [None, None]
   \<and> v_assign_op w_popped (Big None) (Big (Some 0)) = Undefined"
  by (simp add: eval_defs)

text \<open>
  C2 (strong exception guarantee): when a copy of an element throws inside a
  mutating operation, the exception reaches the caller and the vector is as before
  the call. The code breaks it. In the shared branch of \<^verbatim>\<open>erase\<close> the exception of
  the first copy is caught and not rethrown, and the member goes on to write the
  header of the block it has just released: the call on \<open>b\<close> in \<open>w_shared\<close> with a
  first copy that throws has undefined behaviour instead of throwing. The same holds
  for the fill in \<^verbatim>\<open>resize_job\<close> (here the fourth copy throws). And \<^verbatim>\<open>insert\<close> into a
  vector with one inline element \<open>[1]\<close> throws from its closing \<^verbatim>\<open>begin()\<close> (third
  copy) after the vector has become \<open>[9, 1]\<close>.
\<close>

theorem copy_failure_not_rolled_back:
  "v_erase (w_shared\<lparr>script := [True]\<rparr>) (Big (Some 1)) (Elem 1 1) (Elem 1 2) = Undefined
   \<and> v_resize_fill (w_abc\<lparr>script := [False, False, False, True]\<rparr>) (Big (Some 1)) 5 9
       = Undefined
   \<and> contents \<lparr>heap = [], script = [False, False, True]\<rparr> (Single 1) = Some [1]
   \<and> v_insert \<lparr>heap = [], script = [False, False, True]\<rparr> (Single 1) (Inline 0) 9
       = Throws Copy_failure
           (\<lparr>heap = [Some \<lparr>size_fld = Some 2, capacity_fld = Some 2, ref_count = Some 1,
                            data = [Some 9, Some 1]\<rparr>, None],
              script = []\<rparr>, Big (Some 0))
   \<and> contents
         \<lparr>heap = [Some \<lparr>size_fld = Some 2, capacity_fld = Some 2, ref_count = Some 1,
                          data = [Some 9, Some 1]\<rparr>, None],
            script = []\<rparr> (Big (Some 0)) = Some [9, 1]"
  by (simp add: eval_defs)

text \<open>
  C3 (growth law): from an empty vector, \<^verbatim>\<open>push_back\<close> calls produce the capacities
  \<open>0 \<rightarrow> 2 \<rightarrow> 4 \<rightarrow> 8 \<dots>\<close>. As stated this fails on the facade: the first element is
  stored inline, and the capacity after one \<^verbatim>\<open>push_back\<close> is \<open>1\<close>.
\<close>

theorem capacity_one_after_first_push_back:
  "push_back_all empty_world Monostate [7 :: int] = Returns () (empty_world, Single 7)
   \<and> v_capacity empty_world (Single (7 :: int)) = Some 1"
  by (simp add: v_push_back_def copy_T_def v_capacity_def empty_world_def)

text \<open>
  C3, amended: when no copy throws, any run of up to \<open>2 ^ 63\<close> \<^verbatim>\<open>push_back\<close> calls on
  an empty vector returns, the vector then holds the pushed elements in order, and
  its capacity is \<open>capacity_after\<close> of their number: \<open>0\<close>, then \<open>1\<close> for the inline
  element, then \<open>2\<close> on promotion to the heap, doubling whenever a \<^verbatim>\<open>push_back\<close> finds
  the vector full, and unchanged by every other \<^verbatim>\<open>push_back\<close>.
\<close>

theorem push_back_capacity_law:
  assumes q: "script w = []" and n: "length xs \<le> 2 ^ 63"
  shows "\<exists>w' v'. push_back_all w Monostate xs = Returns () (w', v')
           \<and> v_size w' v' = Some (length xs)
           \<and> v_capacity w' v' = Some (capacity_after (length xs))
           \<and> contents w' v' = Some xs"
proof (cases xs)
  case Nil
  then show ?thesis by (simp add: v_size_def v_capacity_def contents_def v_slots_def)
next
  case (Cons a ys)
  have 1: "v_push_back w Monostate a = Returns () (w, Single a)"
    using q by (simp add: v_push_back_def copy_T_quiet)
  show ?thesis
  proof (cases ys)
    case Nil
    with Cons 1 show ?thesis
      by (simp add: v_size_def v_capacity_def contents_def v_slots_def)
  next
    case (Cons b zs)
    from v_push_back_promote[OF q, of a b] obtain w2 s2 where
      2: "v_push_back w (Single a) b = Returns () (w2, Big s2)"
      and h2: "holds w2 s2 [a, b] 2" and q2: "script w2 = []"
      by blast
    have c2: "capacity_after (length [a, b]) = 2" by (simp add: Let_def)
    have "\<exists>w' s'. push_back_all w2 (Big s2) zs = Returns () (w', Big s')
        \<and> holds w' s' ([a, b] @ zs) (capacity_after (length [a, b] + length zs))
        \<and> script w' = []"
      using h2 q2 n \<open>xs = a # ys\<close> Cons
      by (intro push_back_all_big) (simp_all only: c2, simp_all)
    then obtain w' s' where
      3: "push_back_all w2 (Big s2) zs = Returns () (w', Big s')"
      and h3: "holds w' s' ([a, b] @ zs) (capacity_after (length [a, b] + length zs))"
      by blast
    from holds_observed[OF h3] 1 2 3 \<open>xs = a # ys\<close> Cons show ?thesis
      by simp
  qed
qed

theorem push_back_capacity_law_witness:
  "script (empty_world :: int world) = [] \<and> length [1, 2, 3, 4, 5 :: int] \<le> 2 ^ 63
   \<and> (\<exists>w' v'. push_back_all empty_world Monostate [1, 2, 3, 4, 5 :: int] = Returns () (w', v')
         \<and> v_size w' v' = Some 5 \<and> v_capacity w' v' = Some 8
         \<and> contents w' v' = Some [1, 2, 3, 4, 5])"
proof -
  have q: "script (empty_world :: int world) = []" by (simp add: empty_world_def)
  have n: "length [1, 2, 3, 4, 5 :: int] \<le> 2 ^ 63" by simp
  have c: "capacity_after (length [1, 2, 3, 4, 5 :: int]) = 8" by (simp add: Let_def)
  have l: "length [1, 2, 3, 4, 5 :: int] = 5" by simp
  note r = push_back_capacity_law[OF q n, unfolded c, unfolded l]
  from r q n show ?thesis by blast
qed

text \<open>
  C4 (invalid access): an index \<open>i \<ge> size()\<close> raises an invalid-access error, and so
  do \<^verbatim>\<open>pop_back\<close>, \<^verbatim>\<open>front\<close> and \<^verbatim>\<open>back\<close> on every empty vector, a heap backed one
  included. The code breaks it: on a vector with one inline element \<open>[5]\<close>,
  \<^verbatim>\<open>operator[]\<close> ignores the index, so that \<open>v[3]\<close> returns the inline element; and
  \<^verbatim>\<open>pop_back\<close> on the heap backed vector emptied by two \<^verbatim>\<open>pop_back\<close> calls raises
  nothing: it decrements size \<open>0\<close> and destroys a slot outside the block.
\<close>

theorem invalid_access_not_raised:
  "v_size empty_world (Single 5) = Some 1
   \<and> v_subscript empty_world (Single 5) 3 = Returns (Inline 0) (empty_world, Single 5)
   \<and> v_subscript_const empty_world (Single 5) 3 = Returns (Inline 0) (empty_world, Single 5)
   \<and> load empty_world (Single 5) (Inline 0) = Some (5 :: int)
   \<and> v_size w_popped (Big (Some 0)) = Some 0
   \<and> v_pop_back w_popped (Big (Some 0)) = Undefined"
  by (simp add: eval_defs)

text \<open>
  C5 (no demotion): once heap backed, no operation, \<^verbatim>\<open>assign\<close> included, reverts
  the vector to the empty or inline representation. As stated this fails for
  \<^verbatim>\<open>assign\<close>, which is \<^verbatim>\<open>*this = vector(beg, en)\<close>: assigning the empty range to the
  heap backed vector \<open>[1, 2, 3]\<close> of \<open>w_abc\<close> leaves the empty representation, and
  assigning a range of one element the inline one.
\<close>

theorem assign_reverts_representation:
  "v_assign w_abc (Big (Some 1)) [] = Returns () (\<lparr>heap = [None, None], script = []\<rparr>, Monostate)
   \<and> v_assign w_abc (Big (Some 1)) [7]
       = Returns () (\<lparr>heap = [None, None], script = []\<rparr>, Single 7)"
  by (simp add: eval_defs)

text \<open>
  C5, amended: a heap backed vector stays heap backed under every mutating member
  other than assignment (\<^verbatim>\<open>push_back\<close>, \<^verbatim>\<open>pop_back\<close>, \<^verbatim>\<open>insert\<close>, \<^verbatim>\<open>erase\<close>, \<^verbatim>\<open>resize\<close>,
  \<^verbatim>\<open>reserve\<close>, \<^verbatim>\<open>shrink_to_fit\<close> and the mutable accessors), whether the call returns
  or throws, and whatever its size becomes. Of \<^verbatim>\<open>clear\<close> no call exists, since the
  member cannot be instantiated (C10).
\<close>

theorem promotion_is_permanent:
  "mutate dflt w (Big s) m = Returns u (w', v') \<or> mutate dflt w (Big s) m = Throws e (w', v')
   \<Longrightarrow> index_of v' = 2"
  by (cases m)
     (auto simp: mutate_def v_push_back_def v_pop_back_def v_resize_def
        v_resize_fill_def v_resize_job_def v_reserve_def v_shrink_to_fit_def v_subscript_def
        v_front_def v_back_def v_data_def
        dest: lift_big_cases forget_cases v_insert_big v_erase_big v_erase_at_big)

theorem promotion_is_permanent_witness:
  "mutate 0 w_a (Big (Some 0)) Pop_back = Returns () (w_popped, Big (Some 0))
   \<and> v_size w_popped (Big (Some 0)) = Some 0
   \<and> index_of (Big (Some 0) :: int vec_data) = 2"
proof -
  have h: "mutate 0 w_a (Big (Some 0)) Pop_back = Returns () (w_popped, Big (Some 0))"
    by (simp add: mutate_def eval_defs)
  have z: "v_size w_popped (Big (Some 0)) = Some 0"
    by (simp add: eval_defs)
  from promotion_is_permanent[of 0 w_a "Some 0" Pop_back "()" w_popped "Big (Some 0)"] h z
  show ?thesis by simp
qed

text \<open>
  C6 (range constructor): constructing from a range of length \<open>n\<close> gives a vector
  of size \<open>n\<close> with the elements of the range. The code breaks it for every
  \<open>n > 1\<close>: \<^verbatim>\<open>bigvector(beg, en)\<close> copies from its own \<^verbatim>\<open>begin()\<close> and \<^verbatim>\<open>end()\<close>, and so
  reads the size field of the block it has just allocated; it never looks at the
  range and sets no header field. Both the constructor and \<^verbatim>\<open>assign\<close> have undefined
  behaviour on \<open>[1, 2]\<close>; ranges of length 0 and 1 are handled as claimed.
\<close>

theorem range_constructor_reads_raw_header:
  "v_from_range empty_world [1, 2 :: int] = Undefined
   \<and> v_assign empty_world Monostate [1, 2 :: int] = Undefined
   \<and> v_from_range empty_world [7 :: int] = Returns (Single 7) empty_world
   \<and> v_from_range empty_world ([] :: int list) = Returns Monostate empty_world"
  by (simp add: eval_defs)

text \<open>
  C7 (equality): \<open>a == b\<close> evaluates without error for every pair of
  representations, heap backed buffers that hold no block included. The code breaks
  it: a copy of the emptied vector of \<open>w_popped\<close> that calls \<^verbatim>\<open>shrink_to_fit\<close> gives
  up its reference and holds no block; comparing it with the original, in either
  order, reads the size through the null pointer. Both vectors are empty.
\<close>

theorem equality_dereferences_null:
  "v_shrink_to_fit w_popped_shared (Big (Some 0)) = Returns () (w_popped, Big None)
   \<and> contents w_popped (Big None) = Some ([] :: int list)
   \<and> contents w_popped (Big (Some 0)) = Some []
   \<and> v_eq w_popped (Big None) (Big (Some 0)) = None
   \<and> v_eq w_popped (Big (Some 0)) (Big None) = None
   \<and> v_neq w_popped (Big None) (Big (Some 0)) = None"
  by (simp add: eval_defs)

text \<open>
  C8 (reserve): \<^verbatim>\<open>reserve(n)\<close> is a no-op when \<open>n \<le> capacity()\<close>. The code breaks it
  on a vector with one inline element, whose capacity is \<open>1\<close>: the guard of that
  case is \<open>cap < 1\<close>, so \<^verbatim>\<open>reserve(1)\<close> moves the element to a heap block of capacity
  \<open>2\<close>.
\<close>

theorem reserve_one_on_single_promotes:
  "v_capacity empty_world (Single (5 :: int)) = Some 1
   \<and> v_reserve empty_world (Single (5 :: int)) 1
       = Returns ()
           (\<lparr>heap = [Some \<lparr>size_fld = Some 1, capacity_fld = Some 2, ref_count = Some 1,
                            data = [Some 5, None]\<rparr>],
              script = []\<rparr>, Big (Some 0))
   \<and> v_capacity
         \<lparr>heap = [Some \<lparr>size_fld = Some 1, capacity_fld = Some 2, ref_count = Some 1,
                          data = [Some (5 :: int), None]\<rparr>],
            script = []\<rparr> (Big (Some 0)) = Some 2"
  by (simp add: eval_defs)

text \<open>
  C9 (shrink_to_fit): with size \<open>0\<close>, \<^verbatim>\<open>shrink_to_fit\<close> releases the block, the
  buffer holds no block afterwards, \<open>capacity() = 0\<close>, and the vector stays usable.
  The code breaks it for a sole owner: on the emptied vector of \<open>w_popped\<close> the block
  is released and the pointer kept, so that \<^verbatim>\<open>size\<close>, \<^verbatim>\<open>capacity\<close> and \<^verbatim>\<open>push_back\<close>
  afterwards read released memory.
\<close>

theorem shrink_to_fit_leaves_dangling_pointer:
  "v_size w_popped (Big (Some 0)) = Some 0
   \<and> v_capacity w_popped (Big (Some 0)) = Some 2
   \<and> v_shrink_to_fit w_popped (Big (Some 0))
       = Returns () (\<lparr>heap = [None], script = []\<rparr>, Big (Some 0))
   \<and> v_capacity \<lparr>heap = [None], script = []\<rparr> (Big (Some 0) :: int vec_data) = None
   \<and> v_size \<lparr>heap = [None], script = []\<rparr> (Big (Some 0) :: int vec_data) = None
   \<and> v_push_back \<lparr>heap = [None], script = []\<rparr> (Big (Some 0)) (1 :: int) = Undefined"
  by (simp add: eval_defs)

text \<open>
  C10 (clear): on a heap backed vector \<^verbatim>\<open>clear\<close> leaves size \<open>0\<close> and the capacity
  unchanged; on an empty vector or one inline element it leaves the empty
  representation. The code breaks it: \<^verbatim>\<open>bigvector::clear\<close> calls \<^verbatim>\<open>resize(0)\<close>, and
  \<^verbatim>\<open>bigvector\<close> declares \<^verbatim>\<open>resize\<close> with a size and a fill value only, so the call
  matches no overload. Neither \<^verbatim>\<open>bigvector::clear\<close> nor \<^verbatim>\<open>vector::clear\<close>, which names
  it, can be instantiated: a program that calls \<^verbatim>\<open>clear\<close> does not compile, whatever
  the vector holds. With the fill value passed, as \<^verbatim>\<open>vector::resize(sz)\<close> passes
  \<^verbatim>\<open>T()\<close>, the call on the vector \<open>[1, 2, 3]\<close> of \<open>w_abc\<close> destroys the three
  elements and leaves size \<open>0\<close> and capacity \<open>4\<close>.
\<close>

theorem clear_has_no_instantiation:
  "bv_clear w_abc (Some 1) = None
   \<and> v_clear w_abc (Big (Some 1)) = None
   \<and> v_clear empty_world (Single (5 :: int)) = None
   \<and> v_clear empty_world (Monostate :: int vec_data) = None
   \<and> bv_resize_call w_abc (Some 1) [Size_arg 0, Value_arg 9]
       = Some (Returns ()
           (\<lparr>heap = [None,
                Some \<lparr>size_fld = Some 0, capacity_fld = Some 4, ref_count = Some 1,
                      data = [None, None, None, None]\<rparr>],
              script = []\<rparr>, Some 1))"
  by (simp add: eval_defs)

end
